theory Spec2Isabelle
  imports Complex_Main
begin

section \<open>Exceptions\<close>

text \<open>
  The exceptions the two source files raise or let through. A pydantic
  \<open>ValidationError\<close> carries the names of the fields that failed.
\<close>

datatype exn =
    ValueError string
  | ValidationError "string list"
  | RuntimeError string
  | AttributeError
  | TypeError
  | KeyError string
  | JobLookupError string
  | SchedulerAlreadyRunningError
  | SchedulerNotRunningError
  | SerialException

text \<open>Sequencing of calls that may raise: the first exception ends the computation.\<close>

definition bind_r :: "exn + 'a \<Rightarrow> ('a \<Rightarrow> exn + 'b) \<Rightarrow> exn + 'b" where
  "bind_r m f = (case m of Inl e \<Rightarrow> Inl e | Inr x \<Rightarrow> f x)"

section \<open>library/metric\_collector.py: task configuration\<close>

datatype MetricType = CPU | GPU | MEMORY | DISK | NETWORK | SENSOR | WEATHER | CUSTOM

text \<open>
  \<open>interval_seconds\<close> is a Python float. The model uses \<open>real\<close>: the validator only
  compares the value with the literals \<open>0.0\<close>, \<open>0.1\<close> and \<open>86400\<close>, and for every
  finite double \<open>v\<close> the float comparison \<open>v < 0.1\<close> holds exactly when the real
  value of \<open>v\<close> is below one tenth (the double written \<open>0.1\<close> is the least double
  that is not below one tenth). NaN and the infinities are not values of the model.
\<close>

record MetricTaskConfig =
  name :: string
  metric_type :: MetricType
  interval_seconds :: real
  enabled :: bool
  max_instances :: int

definition validate_interval :: "real \<Rightarrow> exn + real" where
  "validate_interval v =
     (if v < 0.1 then Inl (ValueError ''Interval too short, minimum 0.1 seconds'')
      else if v > 86400 then Inl (ValueError ''Interval too long, maximum 86400 seconds'')
      else Inr v)"

text \<open>
  Field validation of \<open>interval_seconds\<close>: the constraint \<open>gt=0.0\<close> of the field
  first, then the validator \<open>validate_interval\<close> on the value that passed. The result is
  the list of errors pydantic records for the field.
\<close>

definition interval_seconds_errors :: "real \<Rightarrow> string list" where
  "interval_seconds_errors v =
     (if \<not> v > 0.0 then [''interval_seconds'']
      else case validate_interval v of
             Inl e \<Rightarrow> [''interval_seconds'']
           | Inr v' \<Rightarrow> [])"

definition max_instances_errors :: "int \<Rightarrow> string list" where
  "max_instances_errors m = (if \<not> m \<ge> 1 then [''max_instances''] else [])"

text \<open>
  \<open>MetricTaskConfig(name=..., metric_type=..., interval_seconds=..., enabled=...,
  max_instances=...)\<close>: every field is validated, and the constructor raises one
  \<open>ValidationError\<close> with all the errors found, or returns the object.
\<close>

definition MetricTaskConfig_new ::
    "string \<Rightarrow> MetricType \<Rightarrow> real \<Rightarrow> bool \<Rightarrow> int \<Rightarrow> exn + MetricTaskConfig" where
  "MetricTaskConfig_new nm mt v en mi =
     (let errors = interval_seconds_errors v @ max_instances_errors mi
      in if errors \<noteq> [] then Inl (ValidationError errors)
         else (case validate_interval v of
                 Inl e \<Rightarrow> Inl (ValidationError [''interval_seconds''])
               | Inr v' \<Rightarrow>
                   Inr \<lparr>name = nm, metric_type = mt, interval_seconds = v',
                        enabled = en, max_instances = mi\<rparr>))"

section \<open>library/metric\_collector.py: collector configuration\<close>

record MetricCollectorConfig =
  max_workers :: int
  tasks :: "MetricTaskConfig list"

definition validate_unique_names :: "MetricTaskConfig list \<Rightarrow> exn + MetricTaskConfig list" where
  "validate_unique_names v =
     (let names = map name v
      in if length names \<noteq> card (set names)
         then Inl (ValueError ''Task names must be unique'')
         else Inr v)"

definition max_workers_errors :: "int \<Rightarrow> string list" where
  "max_workers_errors w = (if \<not> w \<ge> 1 \<or> \<not> w \<le> 32 then [''max_workers''] else [])"

definition tasks_errors :: "MetricTaskConfig list \<Rightarrow> string list" where
  "tasks_errors v = (case validate_unique_names v of Inl e \<Rightarrow> [''tasks''] | Inr v' \<Rightarrow> [])"

definition MetricCollectorConfig_new ::
    "int \<Rightarrow> MetricTaskConfig list \<Rightarrow> exn + MetricCollectorConfig" where
  "MetricCollectorConfig_new w v =
     (let errors = max_workers_errors w @ tasks_errors v
      in if errors \<noteq> [] then Inl (ValidationError errors)
         else (case validate_unique_names v of
                 Inl e \<Rightarrow> Inl (ValidationError [''tasks''])
               | Inr v' \<Rightarrow> Inr \<lparr>max_workers = w, tasks = v'\<rparr>))"

section \<open>library/metric\_collector.py: configuration from the theme\<close>

text \<open>
  \<open>theme_data\<close> is a Python dictionary of nested dictionaries with numbers at the
  leaves. A dictionary is an association list, read by \<open>map_of\<close>. Other Python values
  (strings, lists, \<open>None\<close>) are not values of the model.
\<close>

datatype pyval = Num real | Dict "(string \<times> pyval) list"

text \<open>\<open>d.get(k, default)\<close>: a number has no method \<open>get\<close>.\<close>

definition py_get :: "pyval \<Rightarrow> string \<Rightarrow> pyval \<Rightarrow> exn + pyval" where
  "py_get d k dflt =
     (case d of
        Num x \<Rightarrow> Inl AttributeError
      | Dict kvs \<Rightarrow> (case map_of kvs k of None \<Rightarrow> Inr dflt | Some v \<Rightarrow> Inr v))"

text \<open>\<open>d[k]\<close>: a number cannot be subscripted, a missing key raises.\<close>

definition py_subscript :: "pyval \<Rightarrow> string \<Rightarrow> exn + pyval" where
  "py_subscript d k =
     (case d of
        Num x \<Rightarrow> Inl TypeError
      | Dict kvs \<Rightarrow> (case map_of kvs k of None \<Rightarrow> Inl (KeyError k) | Some v \<Rightarrow> Inr v))"

text \<open>\<open>x > 0\<close>: a dictionary cannot be compared with a number.\<close>

definition py_gt_zero :: "pyval \<Rightarrow> exn + bool" where
  "py_gt_zero x = (case x of Num r \<Rightarrow> Inr (r > 0) | Dict kvs \<Rightarrow> Inl TypeError)"

text \<open>\<open>max(300.0, x)\<close>: the second argument is returned when it is greater than the first.\<close>

definition py_max_300 :: "pyval \<Rightarrow> exn + pyval" where
  "py_max_300 x =
     (case x of Num r \<Rightarrow> Inr (Num (if r > 300.0 then r else 300.0)) | Dict kvs \<Rightarrow> Inl TypeError)"

text \<open>
  \<open>MetricTaskConfig(name=nm, metric_type=mt, interval_seconds=x)\<close> with the defaults
  \<open>enabled=True\<close> and \<open>max_instances=1\<close>; a dictionary is not a float.
\<close>

definition MetricTaskConfig_default :: "string \<Rightarrow> MetricType \<Rightarrow> pyval \<Rightarrow> exn + MetricTaskConfig" where
  "MetricTaskConfig_default nm mt x =
     (case x of
        Num r \<Rightarrow> MetricTaskConfig_new nm mt r True 1
      | Dict kvs \<Rightarrow> Inl (ValidationError [''interval_seconds'']))"

text \<open>
  One block of \<open>create_default_config_from_theme\<close>:
  \<^verbatim>\<open>
  if parent.get(key, {}).get('INTERVAL', 0) > 0:
      tasks.append(MetricTaskConfig(name=nm, metric_type=mt,
                                    interval_seconds=adjust(parent[key]['INTERVAL'])))
  \<close>
  where \<open>adjust\<close> is the identity for every metric but the weather, whose block
  applies \<open>max(300.0, _)\<close>. The function is ten such blocks.
\<close>

definition append_task_block ::
    "pyval \<Rightarrow> string \<Rightarrow> string \<Rightarrow> MetricType \<Rightarrow> (pyval \<Rightarrow> exn + pyval) \<Rightarrow>
     MetricTaskConfig list \<Rightarrow> exn + MetricTaskConfig list" where
  "append_task_block parent key nm mt adjust ts =
     bind_r (py_get parent key (Dict [])) (\<lambda>sub.
     bind_r (py_get sub ''INTERVAL'' (Num 0)) (\<lambda>iv.
     bind_r (py_gt_zero iv) (\<lambda>positive.
       if positive then
         bind_r (py_subscript parent key) (\<lambda>sub'.
         bind_r (py_subscript sub' ''INTERVAL'') (\<lambda>iv'.
         bind_r (adjust iv') (\<lambda>arg.
         bind_r (MetricTaskConfig_default nm mt arg) (\<lambda>task.
           Inr (ts @ [task])))))
       else Inr ts)))"

definition create_default_config_from_theme :: "pyval \<Rightarrow> exn + MetricCollectorConfig" where
  "create_default_config_from_theme theme_data =
     bind_r (py_get theme_data ''STATS'' (Dict [])) (\<lambda>stats_config.
     bind_r (py_get stats_config ''CPU'' (Dict [])) (\<lambda>cpu_config.
     bind_r (append_task_block cpu_config ''PERCENTAGE'' ''cpu_percentage'' CPU Inr []) (\<lambda>t1.
     bind_r (append_task_block cpu_config ''FREQUENCY'' ''cpu_frequency'' CPU Inr t1) (\<lambda>t2.
     bind_r (append_task_block cpu_config ''LOAD'' ''cpu_load'' CPU Inr t2) (\<lambda>t3.
     bind_r (append_task_block cpu_config ''TEMPERATURE'' ''cpu_temperature'' CPU Inr t3) (\<lambda>t4.
     bind_r (append_task_block cpu_config ''FAN_SPEED'' ''cpu_fan_speed'' CPU Inr t4) (\<lambda>t5.
     bind_r (append_task_block stats_config ''GPU'' ''gpu_stats'' GPU Inr t5) (\<lambda>t6.
     bind_r (append_task_block stats_config ''MEMORY'' ''memory_stats'' MEMORY Inr t6) (\<lambda>t7.
     bind_r (append_task_block stats_config ''DISK'' ''disk_stats'' DISK Inr t7) (\<lambda>t8.
     bind_r (append_task_block stats_config ''NET'' ''net_stats'' NETWORK Inr t8) (\<lambda>t9.
     bind_r (append_task_block stats_config ''WEATHER'' ''weather_stats'' WEATHER py_max_300 t9)
       (\<lambda>t10.
     MetricCollectorConfig_new 4 t10))))))))))))"

text \<open>
  The interval a theme configures for a metric, as the blocks read it: the value of
  \<open>parent.get(key, {}).get('INTERVAL', 0)\<close> when it is a number.
\<close>

definition configured_interval :: "pyval \<Rightarrow> string \<Rightarrow> real option" where
  "configured_interval parent key =
     (case py_get parent key (Dict []) of
        Inl e \<Rightarrow> None
      | Inr sub \<Rightarrow>
          (case py_get sub ''INTERVAL'' (Num 0) of
             Inr (Num r) \<Rightarrow> Some r
           | _ \<Rightarrow> None))"

text \<open>The task a block appends for a positive interval, and the list it contributes.\<close>

definition theme_task :: "string \<times> MetricType \<times> real \<Rightarrow> MetricTaskConfig" where
  "theme_task s =
     (case s of (nm, mt, r) \<Rightarrow>
        \<lparr>name = nm, metric_type = mt, interval_seconds = r, enabled = True, max_instances = 1\<rparr>)"

definition theme_tasks :: "(string \<times> MetricType \<times> real) list \<Rightarrow> MetricTaskConfig list" where
  "theme_tasks specs = map theme_task (filter (\<lambda>(nm, mt, r). 0 < r) specs)"

section \<open>The scheduler object used by the collector\<close>

text \<open>
  \<open>MetricCollector\<close> keeps an APScheduler \<open>BackgroundScheduler\<close> and calls its
  \<open>add_job\<close>, \<open>start\<close>, \<open>shutdown\<close>, \<open>pause_job\<close> and \<open>resume_job\<close>. The scheduler is a
  third-party object, not code of the repository; the model keeps the part of its state
  these calls read and write: the table of jobs by id and the running flag. A paused job
  is a job without a next run time. The handlers are opaque callables of a type \<open>'h\<close>.
\<close>

record 'h job =
  job_id :: string
  job_func :: 'h
  job_trigger_seconds :: real
  job_name :: string
  job_max_instances :: int
  job_paused :: bool

record 'h scheduler =
  sched_max_workers :: int
  jobs :: "string \<rightharpoonup> 'h job"
  running :: bool

text \<open>\<open>BackgroundScheduler(daemon=True, max_workers=w)\<close>\<close>

definition BackgroundScheduler :: "int \<Rightarrow> 'h scheduler" where
  "BackgroundScheduler w = \<lparr>sched_max_workers = w, jobs = Map.empty, running = False\<rparr>"

text \<open>
  \<open>add_job(func=h, trigger=IntervalTrigger(seconds=s), id=i, name=n, max_instances=m,
  replace_existing=True)\<close>: the job is stored under its id, in place of a job that has
  the same id.
\<close>

definition add_job :: "'h \<Rightarrow> real \<Rightarrow> string \<Rightarrow> string \<Rightarrow> int \<Rightarrow> 'h scheduler \<Rightarrow> exn + 'h scheduler" where
  "add_job h s i n m sch =
     Inr (sch\<lparr>jobs := (jobs sch)(i \<mapsto>
            \<lparr>job_id = i, job_func = h, job_trigger_seconds = s, job_name = n,
             job_max_instances = m, job_paused = False\<rparr>)\<rparr>)"

definition scheduler_start :: "'h scheduler \<Rightarrow> exn + 'h scheduler" where
  "scheduler_start sch =
     (if running sch then Inl SchedulerAlreadyRunningError else Inr (sch\<lparr>running := True\<rparr>))"

text \<open>\<open>pause_job\<close> and \<open>resume_job\<close> look the job up by id and raise when there is none.\<close>

definition pause_job :: "string \<Rightarrow> 'h scheduler \<Rightarrow> exn + 'h scheduler" where
  "pause_job i sch =
     (case jobs sch i of
        None \<Rightarrow> Inl (JobLookupError i)
      | Some j \<Rightarrow> Inr (sch\<lparr>jobs := (jobs sch)(i \<mapsto> j\<lparr>job_paused := True\<rparr>)\<rparr>))"

definition resume_job :: "string \<Rightarrow> 'h scheduler \<Rightarrow> exn + 'h scheduler" where
  "resume_job i sch =
     (case jobs sch i of
        None \<Rightarrow> Inl (JobLookupError i)
      | Some j \<Rightarrow> Inr (sch\<lparr>jobs := (jobs sch)(i \<mapsto> j\<lparr>job_paused := False\<rparr>)\<rparr>))"

text \<open>
  \<open>shutdown(wait=w)\<close> or \<open>shutdown(wait=w, timeout=t)\<close>. The method has the one
  parameter \<open>wait\<close>: a call that passes the keyword \<open>timeout\<close> raises
  \<open>TypeError\<close> before the scheduler does anything. Without it, a scheduler that is
  running is stopped, and one that is not running raises.
\<close>

definition scheduler_shutdown :: "bool \<Rightarrow> real option \<Rightarrow> 'h scheduler \<Rightarrow> exn + 'h scheduler" where
  "scheduler_shutdown wait timeout sch =
     (case timeout of
        Some t \<Rightarrow> Inl TypeError
      | None \<Rightarrow>
          (if \<not> running sch then Inl SchedulerNotRunningError
           else Inr (sch\<lparr>running := False\<rparr>)))"

section \<open>library/metric\_collector.py: the collector\<close>

text \<open>
  What the collector writes to its logger is kept in the state, as a list of records:
  the level and the message, the message with its parameters instead of the formatted
  string.
\<close>

datatype level = DEBUG | INFO | WARNING | ERROR

datatype message =
    Registered_handler_for_task string
  | No_task_handlers_registered
  | Starting_metric_collector_with_tasks nat
  | Skipping_disabled_task string
  | No_handler_registered_for_task string
  | Scheduled_task string real
  | Metric_collector_started
  | Stopping_metric_collector
  | Metric_collector_stopped
  | Paused_task string
  | Resumed_task string

record 'h MetricCollector =
  config :: MetricCollectorConfig
  logger :: "(level \<times> message) list"
  task_handlers :: "string \<rightharpoonup> 'h"
  scheduler :: "'h scheduler"

definition log_to :: "level \<times> message \<Rightarrow> 'h MetricCollector \<Rightarrow> 'h MetricCollector" where
  "log_to r c = c\<lparr>logger := logger c @ [r]\<rparr>"

text \<open>\<open>__init__\<close>; \<open>available\<close> is the module flag \<open>APSCHEDULER_AVAILABLE\<close>.\<close>

definition MetricCollector_init :: "bool \<Rightarrow> MetricCollectorConfig \<Rightarrow> exn + 'h MetricCollector" where
  "MetricCollector_init available cfg =
     (if \<not> available
      then Inl (RuntimeError ''APScheduler is required. Install: pip install apscheduler'')
      else Inr \<lparr>config = cfg, logger = [], task_handlers = Map.empty,
                scheduler = BackgroundScheduler (max_workers cfg)\<rparr>)"

definition register_task_handler :: "string \<Rightarrow> 'h \<Rightarrow> 'h MetricCollector \<Rightarrow> 'h MetricCollector" where
  "register_task_handler task_name handler c =
     log_to (DEBUG, Registered_handler_for_task task_name)
       (c\<lparr>task_handlers := (task_handlers c)(task_name \<mapsto> handler)\<rparr>)"

definition metric_type_value :: "MetricType \<Rightarrow> string" where
  "metric_type_value t =
     (case t of CPU \<Rightarrow> ''cpu'' | GPU \<Rightarrow> ''gpu'' | MEMORY \<Rightarrow> ''memory'' | DISK \<Rightarrow> ''disk''
      | NETWORK \<Rightarrow> ''network'' | SENSOR \<Rightarrow> ''sensor'' | WEATHER \<Rightarrow> ''weather''
      | CUSTOM \<Rightarrow> ''custom'')"

text \<open>
  The loop of \<open>start\<close> over \<open>self.config.tasks\<close>. A method returns the exception it
  raised, if any, and the object as the call left it.
\<close>

fun schedule_tasks ::
    "MetricTaskConfig list \<Rightarrow> 'h MetricCollector \<Rightarrow> exn option \<times> 'h MetricCollector" where
  "schedule_tasks [] c = (None, c)"
| "schedule_tasks (task_config # rest) c =
     (if \<not> enabled task_config then
        schedule_tasks rest (log_to (DEBUG, Skipping_disabled_task (name task_config)) c)
      else
        (case task_handlers c (name task_config) of
           None \<Rightarrow>
             schedule_tasks rest
               (log_to (WARNING, No_handler_registered_for_task (name task_config)) c)
         | Some handler \<Rightarrow>
             (case add_job handler (interval_seconds task_config) (name task_config)
                     (metric_type_value (metric_type task_config) @ '': '' @ name task_config)
                     (max_instances task_config) (scheduler c) of
                Inl e \<Rightarrow> (Some e, c)
              | Inr sch \<Rightarrow>
                  schedule_tasks rest
                    (log_to (INFO, Scheduled_task (name task_config)
                                     (interval_seconds task_config))
                       (c\<lparr>scheduler := sch\<rparr>)))))"

definition start :: "'h MetricCollector \<Rightarrow> exn option \<times> 'h MetricCollector" where
  "start c =
     (if task_handlers c = Map.empty then
        (None, log_to (WARNING, No_task_handlers_registered) c)
      else
        (case schedule_tasks (tasks (config c))
                (log_to (INFO, Starting_metric_collector_with_tasks
                                 (length (tasks (config c)))) c) of
           (Some e, c') \<Rightarrow> (Some e, c')
         | (None, c') \<Rightarrow>
             (case scheduler_start (scheduler c') of
                Inl e \<Rightarrow> (Some e, c')
              | Inr sch \<Rightarrow>
                  (None, log_to (INFO, Metric_collector_started) (c'\<lparr>scheduler := sch\<rparr>)))))"

text \<open>\<open>stop(wait, timeout)\<close> passes both arguments to \<open>shutdown\<close> by keyword.\<close>

definition stop :: "bool \<Rightarrow> real \<Rightarrow> 'h MetricCollector \<Rightarrow> exn option \<times> 'h MetricCollector" where
  "stop wait timeout c =
     (let c1 = log_to (INFO, Stopping_metric_collector) c
      in case scheduler_shutdown wait (Some timeout) (scheduler c1) of
           Inl e \<Rightarrow> (Some e, c1)
         | Inr sch \<Rightarrow> (None, log_to (INFO, Metric_collector_stopped) (c1\<lparr>scheduler := sch\<rparr>)))"

definition pause_task :: "string \<Rightarrow> 'h MetricCollector \<Rightarrow> exn option \<times> 'h MetricCollector" where
  "pause_task task_name c =
     (case pause_job task_name (scheduler c) of
        Inl e \<Rightarrow> (Some e, c)
      | Inr sch \<Rightarrow> (None, log_to (INFO, Paused_task task_name) (c\<lparr>scheduler := sch\<rparr>)))"

definition resume_task :: "string \<Rightarrow> 'h MetricCollector \<Rightarrow> exn option \<times> 'h MetricCollector" where
  "resume_task task_name c =
     (case resume_job task_name (scheduler c) of
        Inl e \<Rightarrow> (Some e, c)
      | Inr sch \<Rightarrow> (None, log_to (INFO, Resumed_task task_name) (c\<lparr>scheduler := sch\<rparr>)))"

text \<open>
  The job \<open>start\<close> hands to \<open>add_job\<close> for a task, and the record it logs for it.
\<close>

definition job_of :: "(string \<rightharpoonup> 'h) \<Rightarrow> MetricTaskConfig \<Rightarrow> 'h job" where
  "job_of hs t =
     \<lparr>job_id = name t, job_func = the (hs (name t)),
      job_trigger_seconds = interval_seconds t,
      job_name = metric_type_value (metric_type t) @ '': '' @ name t,
      job_max_instances = max_instances t, job_paused = False\<rparr>"

definition scheduled :: "(string \<rightharpoonup> 'h) \<Rightarrow> MetricTaskConfig \<Rightarrow> bool" where
  "scheduled hs t \<longleftrightarrow> enabled t \<and> name t \<in> dom hs"

definition task_record :: "(string \<rightharpoonup> 'h) \<Rightarrow> MetricTaskConfig \<Rightarrow> level \<times> message" where
  "task_record hs t =
     (if \<not> enabled t then (DEBUG, Skipping_disabled_task (name t))
      else if name t \<notin> dom hs then (WARNING, No_handler_registered_for_task (name t))
      else (INFO, Scheduled_task (name t) (interval_seconds t)))"

section \<open>main.py: the display manager\<close>

record Config =
  scheduler_stagger_delay :: real
  health_check_interval :: real
  reconnect_wait :: real
  max_reconnect_attempts :: int

definition Config_default :: Config where
  "Config_default =
     \<lparr>scheduler_stagger_delay = 0.15, health_check_interval = 2.0, reconnect_wait = 3.0,
      max_reconnect_attempts = 20\<rparr>"

text \<open>
  The display object, as far as \<open>check_health\<close> reads it: the flag
  \<open>is_LcdSimulated\<close> and \<open>lcd.lcd_serial\<close>, which is \<open>None\<close> or a serial port with
  its flag \<open>is_open\<close>.
\<close>

record serial_port =
  is_open :: bool

record lcd_comm =
  lcd_serial :: "serial_port option"

record display =
  is_LcdSimulated :: bool
  lcd :: lcd_comm

text \<open>
  What a call does besides changing fields is recorded in the order it happens: reading
  the state of the serial port, sleeping, calling \<open>open()\<close> on the port or
  \<open>turn_off()\<close> on the display, waiting for the queue to empty, and the records
  written to the logger.
\<close>

datatype health_message =
    Serial_disconnected
  | Max_reconnect_attempts_reached
  | Reconnected_successfully
  | Reconnect_failed exn
  | Shutting_down_display
  | Stopping_schedulers
  | Restarting_after_reconnection
  | Fatal_error exn

datatype action =
    Probed
  | Slept real
  | Open_called
  | Turn_off_called
  | Waited_for_queue real
  | Logged level health_message

record DisplayManager =
  dm_display :: display
  reconnect_attempts :: int
  actions :: "action list"

definition act :: "action \<Rightarrow> DisplayManager \<Rightarrow> DisplayManager" where
  "act a dm = dm\<lparr>actions := actions dm @ [a]\<rparr>"

text \<open>\<open>__init__\<close>: the counter starts at 0.\<close>

definition DisplayManager_init :: "display \<Rightarrow> DisplayManager" where
  "DisplayManager_init d = \<lparr>dm_display = d, reconnect_attempts = 0, actions = []\<rparr>"

text \<open>
  \<open>_is_connected\<close>: \<open>lcd_serial and lcd_serial.is_open\<close>, read as a truth value.
\<close>

definition is_connected :: "DisplayManager \<Rightarrow> bool \<times> DisplayManager" where
  "is_connected dm =
     ((case lcd_serial (lcd (dm_display dm)) of None \<Rightarrow> False | Some port \<Rightarrow> is_open port),
      act Probed dm)"

text \<open>
  \<open>self.display.lcd.lcd_serial.open()\<close>. Whether the port opens is decided outside the
  program: \<open>failure\<close> is the exception the call raises now, if any. On \<open>None\<close> the
  attribute access raises before any call.
\<close>

definition serial_open :: "exn option \<Rightarrow> DisplayManager \<Rightarrow> exn option \<times> DisplayManager" where
  "serial_open failure dm =
     (case lcd_serial (lcd (dm_display dm)) of
        None \<Rightarrow> (Some AttributeError, dm)
      | Some port \<Rightarrow>
          (case failure of
             Some e \<Rightarrow> (Some e, act Open_called dm)
           | None \<Rightarrow>
               (None, act Open_called
                  (dm\<lparr>dm_display := (dm_display dm)\<lparr>lcd :=
                        (lcd (dm_display dm))\<lparr>lcd_serial := Some (port\<lparr>is_open := True\<rparr>)\<rparr>\<rparr>\<rparr>))))"

text \<open>
  \<open>_try_reconnect\<close>. Every exception of the model is an \<open>Exception\<close>, so the handler
  \<open>except Exception\<close> catches whatever \<open>open()\<close> raises.
\<close>

definition try_reconnect ::
    "Config \<Rightarrow> exn option \<Rightarrow> DisplayManager \<Rightarrow> (exn + bool) \<times> DisplayManager" where
  "try_reconnect cfg failure dm =
     (let dm1 = act (Logged WARNING Serial_disconnected) dm;
          dm2 = dm1\<lparr>reconnect_attempts := reconnect_attempts dm1 + 1\<rparr>
      in if reconnect_attempts dm2 > max_reconnect_attempts cfg then
           (Inl (RuntimeError ''Serial connection lost''),
            act (Logged ERROR Max_reconnect_attempts_reached) dm2)
         else
           (case serial_open failure (act (Slept (reconnect_wait cfg)) dm2) of
              (None, dm3) \<Rightarrow>
                (Inr True,
                 (act (Logged INFO Reconnected_successfully) dm3)\<lparr>reconnect_attempts := 0\<rparr>)
            | (Some e, dm3) \<Rightarrow>
                (Inr False, act (Logged ERROR (Reconnect_failed e)) dm3)))"

definition check_health ::
    "Config \<Rightarrow> exn option \<Rightarrow> DisplayManager \<Rightarrow> (exn + bool) \<times> DisplayManager" where
  "check_health cfg failure dm =
     (if is_LcdSimulated (dm_display dm) then (Inr False, dm)
      else
        (case is_connected dm of
           (conn, dm1) \<Rightarrow>
             if \<not> conn then try_reconnect cfg failure dm1
             else (Inr False, dm1\<lparr>reconnect_attempts := 0\<rparr>)))"

text \<open>The number of calls of \<open>open()\<close> a manager has made.\<close>

definition open_calls :: "DisplayManager \<Rightarrow> nat" where
  "open_calls dm = length (filter (\<lambda>a. a = Open_called) (actions dm))"

section \<open>main.py: shutting down\<close>

text \<open>
  The scheduler manager, as far as \<open>stop_all\<close> uses it: the collector, the flag
  \<open>_stopping\<close>, whether the queue handler thread has been created, and what the manager
  does besides, recorded as for the display manager.
\<close>

record 'h SchedulerManager =
  collector :: "'h MetricCollector"
  stopping :: bool
  queue_handler_thread :: bool
  sm_actions :: "action list"

definition stop_all :: "'h SchedulerManager \<Rightarrow> exn option \<times> 'h SchedulerManager" where
  "stop_all sm =
     (let sm1 = sm\<lparr>sm_actions := sm_actions sm @ [Logged INFO Stopping_schedulers],
                    stopping := True\<rparr>
      in case stop True 5.0 (collector sm1) of
           (Some e, c) \<Rightarrow> (Some e, sm1\<lparr>collector := c\<rparr>)
         | (None, c) \<Rightarrow>
             (None,
              if queue_handler_thread sm1
              then sm1\<lparr>collector := c, sm_actions := sm_actions sm1 @ [Slept 0.1]\<rparr>
              else sm1\<lparr>collector := c\<rparr>))"

text \<open>
  \<open>DisplayManager.shutdown(scheduler_mgr)\<close>. The method \<open>turn_off\<close> of the display is
  not in the two source files: \<open>turn_off\<close> is the exception the call raises, if any.
  The wait for the queue to empty (\<open>_wait_for_queue(timeout=5.0)\<close>) is recorded as one
  action; how long it lasts depends on the thread that empties the queue.
\<close>

definition shutdown ::
    "exn option \<Rightarrow> DisplayManager \<Rightarrow> 'h SchedulerManager \<Rightarrow>
     exn option \<times> DisplayManager \<times> 'h SchedulerManager" where
  "shutdown turn_off dm sm =
     (let dm1 = act Turn_off_called (act (Logged INFO Shutting_down_display) dm)
      in case turn_off of
           Some e \<Rightarrow> (Some e, dm1, sm)
         | None \<Rightarrow>
             (case stop_all sm of
                (Some e, sm') \<Rightarrow> (Some e, dm1, sm')
              | (None, sm') \<Rightarrow>
                  (None, act (Slept 0.5) (act (Waited_for_queue 5.0) dm1), sm')))"

section \<open>main.py: the main monitoring loop\<close>

text \<open>
  The loop of \<open>SystemMonitor.run\<close>:
  \<^verbatim>\<open>
  while not self._stopping:
      time.sleep(self.config.health_check_interval)
      try:
          if self.display_mgr.check_health(self.config):
              self.logger.info("Restarting after reconnection")
              self.display_mgr.shutdown(self.scheduler_mgr)
              break
      except RuntimeError as e:
          self.logger.error(f"Fatal error: {e}")
          break
  \<close>
  Each round finds the display as the rest of the program and the device left it, and
  the attempt to open the port, if one is made, succeeds or raises. The list gives both
  for every round until a signal sets \<open>_stopping\<close>. The handler catches a
  \<open>RuntimeError\<close>, from the check or from the shutdown; any other exception leaves the
  loop and the method. The sleep of the loop and the two log records are recorded with
  the actions of the display manager.
\<close>

record 'h SystemMonitor =
  display_mgr :: DisplayManager
  scheduler_mgr :: "'h SchedulerManager"

datatype loop_exit = Stopped | Restart | Fatal exn | Propagated exn

fun monitoring_loop ::
    "Config \<Rightarrow> exn option \<Rightarrow> (display \<times> exn option) list \<Rightarrow> 'h SystemMonitor \<Rightarrow>
     loop_exit \<times> 'h SystemMonitor" where
  "monitoring_loop cfg turn_off [] m = (Stopped, m)"
| "monitoring_loop cfg turn_off ((d, failure) # rounds) m =
     (case check_health cfg failure
             (act (Slept (health_check_interval cfg)) ((display_mgr m)\<lparr>dm_display := d\<rparr>)) of
        (Inr True, dm') \<Rightarrow>
          (case shutdown turn_off (act (Logged INFO Restarting_after_reconnection) dm')
                  (scheduler_mgr m) of
             (None, dm'', sm') \<Rightarrow> (Restart, \<lparr>display_mgr = dm'', scheduler_mgr = sm'\<rparr>)
           | (Some (RuntimeError msg), dm'', sm') \<Rightarrow>
               (Fatal (RuntimeError msg),
                \<lparr>display_mgr = act (Logged ERROR (Fatal_error (RuntimeError msg))) dm'',
                 scheduler_mgr = sm'\<rparr>)
           | (Some e, dm'', sm') \<Rightarrow>
               (Propagated e, \<lparr>display_mgr = dm'', scheduler_mgr = sm'\<rparr>))
      | (Inr False, dm') \<Rightarrow> monitoring_loop cfg turn_off rounds (m\<lparr>display_mgr := dm'\<rparr>)
      | (Inl (RuntimeError msg), dm') \<Rightarrow>
          (Fatal (RuntimeError msg),
           m\<lparr>display_mgr := act (Logged ERROR (Fatal_error (RuntimeError msg))) dm'\<rparr>)
      | (Inl e, dm') \<Rightarrow> (Propagated e, m\<lparr>display_mgr := dm'\<rparr>))"

section \<open>main.py: the queue handler\<close>

text \<open>
  An entry of \<open>update_queue\<close> is a pair \<open>(f, args)\<close>. A callable acts on the device
  (a state of type \<open>'d\<close>) and may raise, leaving the device as it was at that moment;
  \<open>f\<close> may also be a false value such as \<open>None\<close>, and is then not called.
\<close>

type_synonym ('a, 'd) operation = "('a \<Rightarrow> 'd \<Rightarrow> exn option \<times> 'd) option \<times> 'a"

text \<open>The body of the \<open>try\<close> statement of \<open>queue_handler_loop\<close>.\<close>

definition queue_handler_try ::
    "('a, 'd) operation list \<times> 'd \<Rightarrow> exn option \<times> ('a, 'd) operation list \<times> 'd" where
  "queue_handler_try s =
     (case s of (queue, dev) \<Rightarrow>
        (case queue of
           [] \<Rightarrow> (None, queue, dev)
         | (f, args) # rest \<Rightarrow>
             (case f of
                None \<Rightarrow> (None, rest, dev)
              | Some g \<Rightarrow> (case g args dev of (raised, dev') \<Rightarrow> (raised, rest, dev')))))"

text \<open>
  The loop runs until another thread sets \<open>_stopping\<close>: \<open>n\<close> is the number of rounds
  it gets. The bare \<open>except: pass\<close> swallows whatever the body raised.
\<close>

fun queue_handler_loop ::
    "nat \<Rightarrow> ('a, 'd) operation list \<times> 'd \<Rightarrow> ('a, 'd) operation list \<times> 'd" where
  "queue_handler_loop 0 s = s"
| "queue_handler_loop (Suc n) s =
     (case queue_handler_try s of
        (Some e, s') \<Rightarrow> queue_handler_loop n s'
      | (None, s') \<Rightarrow> queue_handler_loop n s')"

text \<open>Calling one operation, and all operations of a queue in order, on the device.\<close>

definition call_operation :: "('a, 'd) operation \<Rightarrow> 'd \<Rightarrow> 'd" where
  "call_operation operation dev =
     (case operation of
        (None, args) \<Rightarrow> dev
      | (Some g, args) \<Rightarrow> snd (g args dev))"

definition raises :: "('a, 'd) operation \<Rightarrow> 'd \<Rightarrow> bool" where
  "raises operation dev \<longleftrightarrow>
     (case operation of
        (None, args) \<Rightarrow> False
      | (Some g, args) \<Rightarrow> fst (g args dev) \<noteq> None)"

section \<open>Example objects\<close>

definition example_tasks :: "MetricTaskConfig list" where
  "example_tasks =
     [\<lparr>name = ''cpu'', metric_type = CPU, interval_seconds = 1, enabled = True,
        max_instances = 1\<rparr>,
      \<lparr>name = ''memory'', metric_type = MEMORY, interval_seconds = 3, enabled = False,
        max_instances = 1\<rparr>,
      \<lparr>name = ''disk'', metric_type = DISK, interval_seconds = 10, enabled = True,
        max_instances = 2\<rparr>]"

definition example_collector :: "nat MetricCollector" where
  "example_collector =
     \<lparr>config = \<lparr>max_workers = 4, tasks = example_tasks\<rparr>, logger = [],
      task_handlers = Map.empty, scheduler = BackgroundScheduler 4\<rparr>"

definition example_started :: "nat MetricCollector" where
  "example_started =
     example_collector\<lparr>
       task_handlers := [''cpu'' \<mapsto> 7],
       scheduler := \<lparr>sched_max_workers = 4,
         jobs = [''cpu'' \<mapsto>
           \<lparr>job_id = ''cpu'', job_func = 7, job_trigger_seconds = 1, job_name = ''cpu: cpu'',
            job_max_instances = 1, job_paused = False\<rparr>],
         running = True\<rparr>\<rparr>"

definition example_scheduler_manager :: "nat SchedulerManager" where
  "example_scheduler_manager =
     \<lparr>collector = example_started, stopping = False, queue_handler_thread = True,
      sm_actions = []\<rparr>"

definition example_display_open :: display where
  "example_display_open =
     \<lparr>is_LcdSimulated = False, lcd = \<lparr>lcd_serial = Some \<lparr>is_open = True\<rparr>\<rparr>\<rparr>"

definition example_display_closed :: display where
  "example_display_closed =
     \<lparr>is_LcdSimulated = False, lcd = \<lparr>lcd_serial = Some \<lparr>is_open = False\<rparr>\<rparr>\<rparr>"

definition example_display_simulated :: display where
  "example_display_simulated = \<lparr>is_LcdSimulated = True, lcd = \<lparr>lcd_serial = None\<rparr>\<rparr>"

definition example_monitor :: "display \<Rightarrow> nat SystemMonitor" where
  "example_monitor d =
     \<lparr>display_mgr = DisplayManager_init d, scheduler_mgr = example_scheduler_manager\<rparr>"

definition example_config_two_attempts :: Config where
  "example_config_two_attempts = Config_default\<lparr>max_reconnect_attempts := 2\<rparr>"

definition example_raising_operation :: "(string, string list) operation" where
  "example_raising_operation = (Some (\<lambda>args dev. (Some SerialException, dev)), ''first'')"

definition example_writing_operation :: "(string, string list) operation" where
  "example_writing_operation = (Some (\<lambda>args dev. (None, dev @ [args])), ''second'')"

section \<open>Validation of task configurations\<close>

lemma validate_interval_cases:
  "validate_interval v = Inr v' \<longleftrightarrow> v' = v \<and> 0.1 \<le> v \<and> v \<le> 86400"
  by (auto simp: validate_interval_def)

lemma interval_seconds_errors_Nil:
  "interval_seconds_errors v = [] \<longleftrightarrow> 0.1 \<le> v \<and> v \<le> 86400"
  by (auto simp: interval_seconds_errors_def validate_interval_def)

lemma validate_unique_names_cases:
  "validate_unique_names v = Inr v' \<longleftrightarrow> v' = v \<and> distinct (map name v)"
proof -
  have "length (map name v) = card (set (map name v)) \<longleftrightarrow> distinct (map name v)"
    using card_distinct [of "map name v"] distinct_card [of "map name v"] by auto
  then show ?thesis
    unfolding validate_unique_names_def Let_def by auto
qed

text \<open>
  C4. With the other constrained field valid (\<open>max_instances \<ge> 1\<close>), constructing a
  task configuration succeeds exactly when \<open>interval_seconds\<close> lies in the closed
  range from 0.1 to 86400: inside the range the object is built with the interval
  unchanged, outside it the constructor raises a validation error that names the field,
  whatever the other fields are. The field itself passes its validation exactly on the
  range, and the validator returns its argument there and raises outside.
\<close>

theorem interval_bounds_decide_construction:
  "(1 \<le> mi \<longrightarrow>
      ((\<exists>c. MetricTaskConfig_new nm mt v en mi = Inr c) \<longleftrightarrow> 0.1 \<le> v \<and> v \<le> 86400) \<and>
      (0.1 \<le> v \<and> v \<le> 86400 \<longrightarrow>
         MetricTaskConfig_new nm mt v en mi =
           Inr \<lparr>name = nm, metric_type = mt, interval_seconds = v,
                enabled = en, max_instances = mi\<rparr>)) \<and>
   (v < 0.1 \<or> 86400 < v \<longrightarrow>
      (\<exists>fields. MetricTaskConfig_new nm mt v en mi = Inl (ValidationError fields) \<and>
                 ''interval_seconds'' \<in> set fields)) \<and>
   (interval_seconds_errors v = [] \<longleftrightarrow> 0.1 \<le> v \<and> v \<le> 86400) \<and>
   (validate_interval v = Inr v \<longleftrightarrow> 0.1 \<le> v \<and> v \<le> 86400) \<and>
   (v < 0.1 \<or> 86400 < v \<longrightarrow> (\<exists>msg. validate_interval v = Inl (ValueError msg)))"
proof -
  have v0: "interval_seconds_errors v = [] \<longleftrightarrow> 0.1 \<le> v \<and> v \<le> 86400"
    by (rule interval_seconds_errors_Nil)
  have ok: "MetricTaskConfig_new nm mt v en mi =
              Inr \<lparr>name = nm, metric_type = mt, interval_seconds = v,
                   enabled = en, max_instances = mi\<rparr>"
    if "1 \<le> mi" "0.1 \<le> v" "v \<le> 86400"
    using that
    by (simp add: MetricTaskConfig_new_def interval_seconds_errors_def
        max_instances_errors_def validate_interval_def)
  have bad: "\<exists>fields. MetricTaskConfig_new nm mt v en mi = Inl (ValidationError fields) \<and>
                      ''interval_seconds'' \<in> set fields"
    if "v < 0.1 \<or> 86400 < v"
  proof -
    from that have "interval_seconds_errors v = [''interval_seconds'']"
      by (auto simp: interval_seconds_errors_def validate_interval_def)
    then show ?thesis
      by (simp add: MetricTaskConfig_new_def Let_def)
  qed
  have iff: "(\<exists>c. MetricTaskConfig_new nm mt v en mi = Inr c) \<longleftrightarrow> 0.1 \<le> v \<and> v \<le> 86400"
    if "1 \<le> mi"
  proof
    assume "\<exists>c. MetricTaskConfig_new nm mt v en mi = Inr c"
    with bad show "0.1 \<le> v \<and> v \<le> 86400"
      by (cases "v < 0.1 \<or> 86400 < v") auto
  next
    assume "0.1 \<le> v \<and> v \<le> 86400"
    with ok that show "\<exists>c. MetricTaskConfig_new nm mt v en mi = Inr c"
      by simp
  qed
  have v1: "validate_interval v = Inr v \<longleftrightarrow> 0.1 \<le> v \<and> v \<le> 86400"
    by (simp add: validate_interval_cases)
  have v2: "v < 0.1 \<or> 86400 < v \<longrightarrow> (\<exists>msg. validate_interval v = Inl (ValueError msg))"
    by (auto simp: validate_interval_def)
  from ok bad iff v0 v1 v2 show ?thesis
    by blast
qed

theorem interval_bounds_decide_construction_witness:
  "MetricTaskConfig_new ''cpu'' CPU 0.1 True 1 =
     Inr \<lparr>name = ''cpu'', metric_type = CPU, interval_seconds = 0.1,
          enabled = True, max_instances = 1\<rparr> \<and>
   MetricTaskConfig_new ''cpu'' CPU 86400 True 1 =
     Inr \<lparr>name = ''cpu'', metric_type = CPU, interval_seconds = 86400,
          enabled = True, max_instances = 1\<rparr> \<and>
   (\<exists>fields. MetricTaskConfig_new ''cpu'' CPU 0.05 True 1 = Inl (ValidationError fields) \<and>
              ''interval_seconds'' \<in> set fields) \<and>
   (\<exists>fields. MetricTaskConfig_new ''cpu'' CPU 90000 True 1 = Inl (ValidationError fields) \<and>
              ''interval_seconds'' \<in> set fields)"
  using interval_bounds_decide_construction [of 1 "''cpu''" CPU "0.1" True]
    interval_bounds_decide_construction [of 1 "''cpu''" CPU 86400 True]
    interval_bounds_decide_construction [of 1 "''cpu''" CPU "0.05" True]
    interval_bounds_decide_construction [of 1 "''cpu''" CPU 90000 True]
  by simp

text \<open>
  C5. A list of task configurations in which two positions carry the same name is
  rejected by the constructor of the collector configuration with a validation error
  on the field \<open>tasks\<close>, whatever \<open>max_workers\<close> is; a list whose names are pairwise
  distinct is accepted as it is (with \<open>max_workers\<close> within its own bounds 1 to 32,
  the default being 4).
\<close>

theorem duplicate_task_names_rejected:
  "(i < j \<and> j < length v \<and> name (v ! i) = name (v ! j) \<longrightarrow>
      (\<exists>fields. MetricCollectorConfig_new w v = Inl (ValidationError fields) \<and>
                 ''tasks'' \<in> set fields)) \<and>
   (distinct (map name v) \<and> 1 \<le> w \<and> w \<le> 32 \<longrightarrow>
      MetricCollectorConfig_new w v = Inr \<lparr>max_workers = w, tasks = v\<rparr>)"
proof (intro conjI impI)
  assume dup: "i < j \<and> j < length v \<and> name (v ! i) = name (v ! j)"
  then have "i < length (map name v)" "j < length (map name v)" "i \<noteq> j"
    "map name v ! i = map name v ! j"
    by simp_all
  then have "\<not> distinct (map name v)"
    unfolding distinct_conv_nth by blast
  then have "\<forall>v'. validate_unique_names v \<noteq> Inr v'"
    by (simp add: validate_unique_names_cases)
  then have "tasks_errors v = [''tasks'']"
    by (cases "validate_unique_names v") (auto simp: tasks_errors_def)
  then show "\<exists>fields. MetricCollectorConfig_new w v = Inl (ValidationError fields) \<and>
                      ''tasks'' \<in> set fields"
    by (simp add: MetricCollectorConfig_new_def Let_def)
next
  assume ok: "distinct (map name v) \<and> 1 \<le> w \<and> w \<le> 32"
  then have "validate_unique_names v = Inr v"
    by (simp add: validate_unique_names_cases)
  with ok show "MetricCollectorConfig_new w v = Inr \<lparr>max_workers = w, tasks = v\<rparr>"
    by (simp add: MetricCollectorConfig_new_def tasks_errors_def max_workers_errors_def)
qed

theorem duplicate_task_names_rejected_witness:
  "(\<exists>fields. MetricCollectorConfig_new 4
       [\<lparr>name = ''cpu'', metric_type = CPU, interval_seconds = 1, enabled = True,
          max_instances = 1\<rparr>,
        \<lparr>name = ''cpu'', metric_type = MEMORY, interval_seconds = 3, enabled = True,
          max_instances = 1\<rparr>] = Inl (ValidationError fields) \<and> ''tasks'' \<in> set fields) \<and>
   MetricCollectorConfig_new 4
       [\<lparr>name = ''cpu'', metric_type = CPU, interval_seconds = 1, enabled = True,
          max_instances = 1\<rparr>,
        \<lparr>name = ''memory'', metric_type = MEMORY, interval_seconds = 3, enabled = True,
          max_instances = 1\<rparr>] =
     Inr \<lparr>max_workers = 4, tasks =
       [\<lparr>name = ''cpu'', metric_type = CPU, interval_seconds = 1, enabled = True,
          max_instances = 1\<rparr>,
        \<lparr>name = ''memory'', metric_type = MEMORY, interval_seconds = 3, enabled = True,
          max_instances = 1\<rparr>]\<rparr>"
  using duplicate_task_names_rejected [of 0 1
      "[\<lparr>name = ''cpu'', metric_type = CPU, interval_seconds = 1, enabled = True,
          max_instances = 1\<rparr>,
        \<lparr>name = ''cpu'', metric_type = MEMORY, interval_seconds = 3, enabled = True,
          max_instances = 1\<rparr>]" 4]
    duplicate_task_names_rejected [of 0 1
      "[\<lparr>name = ''cpu'', metric_type = CPU, interval_seconds = 1, enabled = True,
          max_instances = 1\<rparr>,
        \<lparr>name = ''memory'', metric_type = MEMORY, interval_seconds = 3, enabled = True,
          max_instances = 1\<rparr>]" 4]
  by simp

section \<open>The configuration built from a theme\<close>

lemma bind_r_Inr [simp]: "bind_r (Inr x) f = f x"
  by (simp add: bind_r_def)

lemma bind_r_Inl [simp]: "bind_r (Inl e) f = Inl e"
  by (simp add: bind_r_def)

lemma configured_intervalD:
  assumes "configured_interval parent key = Some r"
  shows "\<exists>sub. py_get parent key (Dict []) = Inr sub \<and> py_get sub ''INTERVAL'' (Num 0) = Inr (Num r)"
  using assms
  by (auto simp: configured_interval_def split: sum.splits pyval.splits)

lemma py_get_positive_subscript:
  assumes "py_get d k dflt = Inr v" "v \<noteq> dflt"
  shows "py_subscript d k = Inr v"
  using assms
  by (auto simp: py_get_def py_subscript_def split: pyval.splits option.splits)

lemma theme_tasks_Nil [simp]: "theme_tasks [] = []"
  by (simp add: theme_tasks_def)

lemma theme_tasks_append: "theme_tasks (xs @ ys) = theme_tasks xs @ theme_tasks ys"
  by (simp add: theme_tasks_def)

lemma theme_tasks_single:
  "theme_tasks [(nm, mt, r)] = (if 0 < r then [theme_task (nm, mt, r)] else [])"
  by (simp add: theme_tasks_def)

lemma append_task_block_plain:
  assumes ci: "configured_interval parent key = Some r"
    and ok: "r \<le> 0 \<or> (0.1 \<le> r \<and> r \<le> 86400)"
  shows "append_task_block parent key nm mt Inr ts = Inr (ts @ theme_tasks [(nm, mt, r)])"
proof -
  from configured_intervalD [OF ci] obtain sub where
    g1: "py_get parent key (Dict []) = Inr sub" and
    g2: "py_get sub ''INTERVAL'' (Num 0) = Inr (Num r)"
    by blast
  show ?thesis
  proof (cases "0 < r")
    case False
    with g1 g2 show ?thesis
      by (simp add: append_task_block_def py_gt_zero_def theme_tasks_single)
  next
    case True
    with g2 have s2: "py_subscript sub ''INTERVAL'' = Inr (Num r)"
      by (intro py_get_positive_subscript [where dflt = "Num 0"]) auto
    from g1 g2 True have "sub \<noteq> Dict []"
      by (auto simp: py_get_def)
    with g1 have s1: "py_subscript parent key = Inr sub"
      by (intro py_get_positive_subscript [where dflt = "Dict []"]) auto
    from True ok have "MetricTaskConfig_new nm mt r True 1 = Inr (theme_task (nm, mt, r))"
      by (simp add: MetricTaskConfig_new_def interval_seconds_errors_def
          max_instances_errors_def validate_interval_def theme_task_def)
    with g1 g2 s1 s2 True show ?thesis
      by (simp add: append_task_block_def py_gt_zero_def theme_tasks_single
          MetricTaskConfig_default_def)
  qed
qed


lemma append_task_block_weather:
  assumes ci: "configured_interval parent key = Some r"
    and ok: "r \<le> 86400"
  shows "append_task_block parent key nm mt py_max_300 ts =
           Inr (ts @ (if 0 < r then [theme_task (nm, mt, max 300 r)] else []))"
proof -
  from configured_intervalD [OF ci] obtain sub where
    g1: "py_get parent key (Dict []) = Inr sub" and
    g2: "py_get sub ''INTERVAL'' (Num 0) = Inr (Num r)"
    by blast
  show ?thesis
  proof (cases "0 < r")
    case False
    with g1 g2 show ?thesis
      by (simp add: append_task_block_def py_gt_zero_def)
  next
    case True
    with g2 have s2: "py_subscript sub ''INTERVAL'' = Inr (Num r)"
      by (intro py_get_positive_subscript [where dflt = "Num 0"]) auto
    from g1 g2 True have "sub \<noteq> Dict []"
      by (auto simp: py_get_def)
    with g1 have s1: "py_subscript parent key = Inr sub"
      by (intro py_get_positive_subscript [where dflt = "Dict []"]) auto
    have m: "py_max_300 (Num r) = Inr (Num (max 300 r))"
      by (simp add: py_max_300_def max_def)
    from ok have "MetricTaskConfig_new nm mt (max 300 r) True 1 =
                    Inr (theme_task (nm, mt, max 300 r))"
      by (simp add: MetricTaskConfig_new_def interval_seconds_errors_def
          max_instances_errors_def validate_interval_def theme_task_def max_def)
    with g1 g2 s1 s2 m True show ?thesis
      by (simp add: append_task_block_def py_gt_zero_def MetricTaskConfig_default_def)
  qed
qed

lemma name_theme_task [simp]: "name (theme_task (nm, mt, r)) = nm"
  by (simp add: theme_task_def)

lemma names_theme_tasks: "set (map name (theme_tasks specs)) \<subseteq> set (map fst specs)"
  by (force simp: theme_tasks_def)

lemma distinct_theme_tasks:
  "distinct (map fst specs) \<Longrightarrow> distinct (map name (theme_tasks specs))"
proof (induction specs)
  case Nil
  then show ?case by simp
next
  case (Cons s specs)
  obtain nm mt r where s: "s = (nm, mt, r)"
    by (cases s)
  from Cons.prems s have "nm \<notin> set (map fst specs)" "distinct (map fst specs)"
    by auto
  with names_theme_tasks [of specs] Cons.IH s show ?case
    by (auto simp: theme_tasks_def)
qed

text \<open>
  C9 (as amended). For a theme of nested dictionaries with numeric intervals, whose
  weather interval is positive and at most 86400 and whose other nine intervals are each
  either not positive (the metric gets no task) or within the bounds 0.1 to 86400,
  \<open>create_default_config_from_theme\<close> returns the configuration with four workers
  whose tasks are, in the order of the source, one task per positive interval with that
  interval unchanged, and last the weather task with the interval
  \<open>max 300 w\<close>.
\<close>

theorem theme_intervals_kept_weather_widened:
  assumes stats: "py_get theme_data ''STATS'' (Dict []) = Inr stats_config"
    and cpu: "py_get stats_config ''CPU'' (Dict []) = Inr cpu_config"
    and c1: "configured_interval cpu_config ''PERCENTAGE'' = Some i1"
    and c2: "configured_interval cpu_config ''FREQUENCY'' = Some i2"
    and c3: "configured_interval cpu_config ''LOAD'' = Some i3"
    and c4: "configured_interval cpu_config ''TEMPERATURE'' = Some i4"
    and c5: "configured_interval cpu_config ''FAN_SPEED'' = Some i5"
    and c6: "configured_interval stats_config ''GPU'' = Some i6"
    and c7: "configured_interval stats_config ''MEMORY'' = Some i7"
    and c8: "configured_interval stats_config ''DISK'' = Some i8"
    and c9: "configured_interval stats_config ''NET'' = Some i9"
    and cw: "configured_interval stats_config ''WEATHER'' = Some w"
    and others: "\<forall>r \<in> set [i1, i2, i3, i4, i5, i6, i7, i8, i9]. r \<le> 0 \<or> (0.1 \<le> r \<and> r \<le> 86400)"
    and weather: "0 < w" "w \<le> 86400"
  shows "create_default_config_from_theme theme_data =
           Inr \<lparr>max_workers = 4,
                tasks = theme_tasks
                  [(''cpu_percentage'', CPU, i1), (''cpu_frequency'', CPU, i2),
                   (''cpu_load'', CPU, i3), (''cpu_temperature'', CPU, i4),
                   (''cpu_fan_speed'', CPU, i5), (''gpu_stats'', GPU, i6),
                   (''memory_stats'', MEMORY, i7), (''disk_stats'', DISK, i8),
                   (''net_stats'', NETWORK, i9)]
                  @ [theme_task (''weather_stats'', WEATHER, max 300 w)]\<rparr>"
proof -
  let ?specs = "[(''cpu_percentage'', CPU, i1), (''cpu_frequency'', CPU, i2),
                   (''cpu_load'', CPU, i3), (''cpu_temperature'', CPU, i4),
                   (''cpu_fan_speed'', CPU, i5), (''gpu_stats'', GPU, i6),
                   (''memory_stats'', MEMORY, i7), (''disk_stats'', DISK, i8),
                   (''net_stats'', NETWORK, i9)]"
  let ?T = "theme_tasks ?specs @ [theme_task (''weather_stats'', WEATHER, max 300 w)]"
  have fold: "theme_tasks xs @ theme_tasks [s] = theme_tasks (xs @ [s])" for xs s
    by (simp add: theme_tasks_append)
  have b1: "append_task_block cpu_config ''PERCENTAGE'' ''cpu_percentage'' CPU Inr []
              = Inr (theme_tasks [(''cpu_percentage'', CPU, i1)])"
    using append_task_block_plain [OF c1, of "''cpu_percentage''" CPU "[]"] others by simp
  have b2: "append_task_block cpu_config ''FREQUENCY'' ''cpu_frequency'' CPU Inr (theme_tasks xs)
              = Inr (theme_tasks (xs @ [(''cpu_frequency'', CPU, i2)]))" for xs
    using append_task_block_plain [OF c2, of "''cpu_frequency''" CPU] others by (simp add: fold)
  have b3: "append_task_block cpu_config ''LOAD'' ''cpu_load'' CPU Inr (theme_tasks xs)
              = Inr (theme_tasks (xs @ [(''cpu_load'', CPU, i3)]))" for xs
    using append_task_block_plain [OF c3, of "''cpu_load''" CPU] others by (simp add: fold)
  have b4: "append_task_block cpu_config ''TEMPERATURE'' ''cpu_temperature'' CPU Inr (theme_tasks xs)
              = Inr (theme_tasks (xs @ [(''cpu_temperature'', CPU, i4)]))" for xs
    using append_task_block_plain [OF c4, of "''cpu_temperature''" CPU] others by (simp add: fold)
  have b5: "append_task_block cpu_config ''FAN_SPEED'' ''cpu_fan_speed'' CPU Inr (theme_tasks xs)
              = Inr (theme_tasks (xs @ [(''cpu_fan_speed'', CPU, i5)]))" for xs
    using append_task_block_plain [OF c5, of "''cpu_fan_speed''" CPU] others by (simp add: fold)
  have b6: "append_task_block stats_config ''GPU'' ''gpu_stats'' GPU Inr (theme_tasks xs)
              = Inr (theme_tasks (xs @ [(''gpu_stats'', GPU, i6)]))" for xs
    using append_task_block_plain [OF c6, of "''gpu_stats''" GPU] others by (simp add: fold)
  have b7: "append_task_block stats_config ''MEMORY'' ''memory_stats'' MEMORY Inr (theme_tasks xs)
              = Inr (theme_tasks (xs @ [(''memory_stats'', MEMORY, i7)]))" for xs
    using append_task_block_plain [OF c7, of "''memory_stats''" MEMORY] others by (simp add: fold)
  have b8: "append_task_block stats_config ''DISK'' ''disk_stats'' DISK Inr (theme_tasks xs)
              = Inr (theme_tasks (xs @ [(''disk_stats'', DISK, i8)]))" for xs
    using append_task_block_plain [OF c8, of "''disk_stats''" DISK] others by (simp add: fold)
  have b9: "append_task_block stats_config ''NET'' ''net_stats'' NETWORK Inr (theme_tasks xs)
              = Inr (theme_tasks (xs @ [(''net_stats'', NETWORK, i9)]))" for xs
    using append_task_block_plain [OF c9, of "''net_stats''" NETWORK] others by (simp add: fold)
  have bw: "append_task_block stats_config ''WEATHER'' ''weather_stats'' WEATHER py_max_300 ts
              = Inr (ts @ [theme_task (''weather_stats'', WEATHER, max 300 w)])" for ts
    using append_task_block_weather [OF cw, of "''weather_stats''" WEATHER] weather by simp
  have chain: "create_default_config_from_theme theme_data = MetricCollectorConfig_new 4 ?T"
    unfolding create_default_config_from_theme_def
    by (simp only: stats cpu bind_r_Inr b1 b2 b3 b4 b5 b6 b7 b8 b9 bw append.simps)
  have "distinct (map fst ?specs)"
    by simp
  then have d: "distinct (map name (theme_tasks ?specs))"
    by (rule distinct_theme_tasks)
  have "''weather_stats'' \<notin> set (map fst ?specs)"
    by simp
  with names_theme_tasks [of ?specs] have "''weather_stats'' \<notin> set (map name (theme_tasks ?specs))"
    by blast
  with d have "distinct (map name ?T)"
    by simp
  then have "validate_unique_names ?T = Inr ?T"
    by (simp add: validate_unique_names_cases)
  then have "MetricCollectorConfig_new 4 ?T = Inr \<lparr>max_workers = 4, tasks = ?T\<rparr>"
    by (simp add: MetricCollectorConfig_new_def tasks_errors_def max_workers_errors_def)
  with chain show ?thesis
    by simp
qed

text \<open>
  C9 as stated fails: a weather interval of 90000 seconds is positive, but the widened
  value is above the upper bound of the validator, and the function raises instead of
  returning a configuration with a weather task.
\<close>

theorem weather_interval_too_long_counterexample:
  "create_default_config_from_theme
     (Dict [(''STATS'', Dict [(''WEATHER'', Dict [(''INTERVAL'', Num 90000)])])]) =
   Inl (ValidationError [''interval_seconds''])"
  by (simp add: create_default_config_from_theme_def append_task_block_def py_get_def
      py_gt_zero_def py_subscript_def py_max_300_def MetricTaskConfig_default_def
      MetricTaskConfig_new_def interval_seconds_errors_def max_instances_errors_def
      validate_interval_def)


theorem theme_intervals_kept_weather_widened_witness:
  "create_default_config_from_theme
     (Dict [(''STATS'', Dict
        [(''CPU'', Dict [(''PERCENTAGE'', Dict [(''INTERVAL'', Num 1)])]),
         (''MEMORY'', Dict [(''INTERVAL'', Num 3)]),
         (''WEATHER'', Dict [(''INTERVAL'', Num 60)])])]) =
   Inr \<lparr>max_workers = 4, tasks =
     [\<lparr>name = ''cpu_percentage'', metric_type = CPU, interval_seconds = 1,
        enabled = True, max_instances = 1\<rparr>,
      \<lparr>name = ''memory_stats'', metric_type = MEMORY, interval_seconds = 3,
        enabled = True, max_instances = 1\<rparr>,
      \<lparr>name = ''weather_stats'', metric_type = WEATHER, interval_seconds = 300,
        enabled = True, max_instances = 1\<rparr>]\<rparr>"
  using theme_intervals_kept_weather_widened
    [of "Dict [(''STATS'', Dict
           [(''CPU'', Dict [(''PERCENTAGE'', Dict [(''INTERVAL'', Num 1)])]),
            (''MEMORY'', Dict [(''INTERVAL'', Num 3)]),
            (''WEATHER'', Dict [(''INTERVAL'', Num 60)])])]"
        "Dict [(''CPU'', Dict [(''PERCENTAGE'', Dict [(''INTERVAL'', Num 1)])]),
               (''MEMORY'', Dict [(''INTERVAL'', Num 3)]),
               (''WEATHER'', Dict [(''INTERVAL'', Num 60)])]"
        "Dict [(''PERCENTAGE'', Dict [(''INTERVAL'', Num 1)])]"
        1 0 0 0 0 0 3 0 0 60]
  by (simp add: py_get_def configured_interval_def theme_tasks_def theme_task_def)

section \<open>Starting, pausing and resuming the collector\<close>

lemma log_to_simps [simp]:
  "config (log_to r c) = config c"
  "task_handlers (log_to r c) = task_handlers c"
  "scheduler (log_to r c) = scheduler c"
  "logger (log_to r c) = logger c @ [r]"
  by (simp_all add: log_to_def)

lemma schedule_tasks_fst: "fst (schedule_tasks ts c) = None"
  by (induction ts arbitrary: c) (auto simp: add_job_def split: option.splits)

lemma schedule_tasks_handlers: "task_handlers (snd (schedule_tasks ts c)) = task_handlers c"
  by (induction ts arbitrary: c) (auto simp: add_job_def split: option.splits)

lemma schedule_tasks_logger:
  "logger (snd (schedule_tasks ts c)) = logger c @ map (task_record (task_handlers c)) ts"
  by (induction ts arbitrary: c)
     (auto simp: add_job_def task_record_def schedule_tasks_handlers split: option.splits)

lemma schedule_tasks_running:
  "running (scheduler (snd (schedule_tasks ts c))) = running (scheduler c)"
  by (induction ts arbitrary: c) (auto simp: add_job_def split: option.splits)

lemma schedule_tasks_other_job:
  "\<forall>t \<in> set ts. scheduled (task_handlers c) t \<longrightarrow> name t \<noteq> nm \<Longrightarrow>
   jobs (scheduler (snd (schedule_tasks ts c))) nm = jobs (scheduler c) nm"
  by (induction ts arbitrary: c)
     (auto simp: add_job_def scheduled_def split: option.splits)

lemma schedule_tasks_job:
  "t \<in> set ts \<Longrightarrow> scheduled (task_handlers c) t \<Longrightarrow> distinct (map name ts) \<Longrightarrow>
   jobs (scheduler (snd (schedule_tasks ts c))) (name t) = Some (job_of (task_handlers c) t)"
proof (induction ts arbitrary: c)
  case Nil
  then show ?case by simp
next
  case (Cons a ts)
  show ?case
  proof (cases "t = a")
    case True
    from Cons.prems True obtain h where h: "task_handlers c (name a) = Some h" "enabled a"
      by (auto simp: scheduled_def)
    from Cons.prems(3) have "name a \<notin> name ` set ts"
      by simp
    then have "\<forall>u \<in> set ts. name u \<noteq> name a"
      by (metis imageI)
    then have "jobs (scheduler (snd (schedule_tasks ts c'))) (name a) = jobs (scheduler c') (name a)"
      for c' :: "'a MetricCollector"
      by (intro schedule_tasks_other_job) simp
    with h True show ?thesis
      by (simp add: add_job_def job_of_def)
  next
    case False
    with Cons.prems have "t \<in> set ts" "distinct (map name ts)"
      by auto
    with Cons.IH Cons.prems(2) show ?thesis
      by (auto simp: add_job_def split: option.splits)
  qed
qed


text \<open>
  C6. With no handler registered, \<open>start\<close> returns without raising; the scheduler
  is left as it was (no job added, not started), as are the configuration and the
  handlers, and the only thing written is one warning to the logger.
\<close>

theorem start_without_handlers_is_noop:
  assumes "task_handlers c = Map.empty"
  shows "fst (start c) = None \<and>
         scheduler (snd (start c)) = scheduler c \<and>
         task_handlers (snd (start c)) = task_handlers c \<and>
         config (snd (start c)) = config c \<and>
         logger (snd (start c)) = logger c @ [(WARNING, No_task_handlers_registered)]"
  using assms by (simp add: start_def)

theorem start_without_handlers_is_noop_witness:
  "fst (start example_collector) = None \<and>
   jobs (scheduler (snd (start example_collector))) = Map.empty \<and>
   \<not> running (scheduler (snd (start example_collector))) \<and>
   logger (snd (start example_collector)) = [(WARNING, No_task_handlers_registered)]"
  using start_without_handlers_is_noop [of example_collector]
  by (simp add: example_collector_def BackgroundScheduler_def)

text \<open>
  C7. With at least one handler registered (and the task names distinct, as the
  constructor of the configuration guarantees), \<open>start\<close> stores a job for every
  configured task that is enabled and has a handler: under the task's name, with that
  handler, an interval trigger of the task's \<open>interval_seconds\<close> and the task's
  \<open>max_instances\<close>. Every other job id is left as it was, so disabled tasks and
  tasks without a handler get no job; they are logged (at debug and warning level) and
  nothing is raised for them. The call raises only if the scheduler was already running,
  and otherwise leaves it running.
\<close>

theorem start_schedules_enabled_tasks_with_handler:
  assumes handlers: "task_handlers c \<noteq> Map.empty"
    and names: "distinct (map name (tasks (config c)))"
  shows "\<exists>c'. start c =
           (if running (scheduler c) then Some SchedulerAlreadyRunningError else None, c') \<and>
         (\<forall>t \<in> set (tasks (config c)).
            enabled t \<and> name t \<in> dom (task_handlers c) \<longrightarrow>
              jobs (scheduler c') (name t) =
                Some \<lparr>job_id = name t, job_func = the (task_handlers c (name t)),
                      job_trigger_seconds = interval_seconds t,
                      job_name = metric_type_value (metric_type t) @ '': '' @ name t,
                      job_max_instances = max_instances t, job_paused = False\<rparr>) \<and>
         (\<forall>nm. \<not> (\<exists>t \<in> set (tasks (config c)).
                      enabled t \<and> name t \<in> dom (task_handlers c) \<and> name t = nm) \<longrightarrow>
              jobs (scheduler c') nm = jobs (scheduler c) nm) \<and>
         (\<not> running (scheduler c) \<longrightarrow> running (scheduler c')) \<and>
         (\<exists>rest. logger c' =
            logger c @ [(INFO, Starting_metric_collector_with_tasks (length (tasks (config c))))]
              @ map (task_record (task_handlers c)) (tasks (config c)) @ rest)"
proof -
  let ?ts = "tasks (config c)"
  let ?c1 = "log_to (INFO, Starting_metric_collector_with_tasks (length ?ts)) c"
  obtain c2 where st: "schedule_tasks ?ts ?c1 = (None, c2)"
    using schedule_tasks_fst [of ?ts ?c1] by (cases "schedule_tasks ?ts ?c1") auto
  then have c2: "snd (schedule_tasks ?ts ?c1) = c2"
    by simp
  let ?c' = "if running (scheduler c) then c2
             else log_to (INFO, Metric_collector_started)
                    (c2\<lparr>scheduler := (scheduler c2)\<lparr>running := True\<rparr>\<rparr>)"
  have run2: "running (scheduler c2) = running (scheduler c)"
    using schedule_tasks_running [of ?ts ?c1] unfolding c2 by simp
  have res: "start c =
      (if running (scheduler c) then Some SchedulerAlreadyRunningError else None, ?c')"
    using handlers run2 by (simp add: start_def st scheduler_start_def)
  have jobs': "jobs (scheduler ?c') = jobs (scheduler (snd (schedule_tasks ?ts ?c1)))"
    unfolding c2 by simp
  have a: "jobs (scheduler ?c') (name t) =
             Some \<lparr>job_id = name t, job_func = the (task_handlers c (name t)),
                   job_trigger_seconds = interval_seconds t,
                   job_name = metric_type_value (metric_type t) @ '': '' @ name t,
                   job_max_instances = max_instances t, job_paused = False\<rparr>"
    if "t \<in> set ?ts" "enabled t \<and> name t \<in> dom (task_handlers c)" for t
  proof -
    from that have "scheduled (task_handlers ?c1) t"
      by (simp add: scheduled_def)
    from schedule_tasks_job [OF that(1) this] names
    show ?thesis
      unfolding jobs' by (simp add: job_of_def)
  qed
  have b: "jobs (scheduler ?c') nm = jobs (scheduler c) nm"
    if "\<not> (\<exists>t \<in> set ?ts. enabled t \<and> name t \<in> dom (task_handlers c) \<and> name t = nm)" for nm
  proof -
    from that have "\<forall>t \<in> set ?ts. scheduled (task_handlers ?c1) t \<longrightarrow> name t \<noteq> nm"
      by (auto simp: scheduled_def)
    from schedule_tasks_other_job [OF this] show ?thesis
      unfolding jobs' by simp
  qed
  have c: "\<not> running (scheduler c) \<longrightarrow> running (scheduler ?c')"
    by simp
  have d: "\<exists>rest. logger ?c' =
            logger c @ [(INFO, Starting_metric_collector_with_tasks (length ?ts))]
              @ map (task_record (task_handlers c)) ?ts @ rest"
    using schedule_tasks_logger [of ?ts ?c1] unfolding c2 by simp
  from res a b c d show ?thesis
    by blast
qed


theorem start_schedules_enabled_tasks_with_handler_witness:
  "\<exists>c'. start (register_task_handler ''memory'' 8
               (register_task_handler ''cpu'' 7 example_collector)) = (None, c') \<and>
     jobs (scheduler c') ''cpu'' =
       Some \<lparr>job_id = ''cpu'', job_func = 7, job_trigger_seconds = 1, job_name = ''cpu: cpu'',
             job_max_instances = 1, job_paused = False\<rparr> \<and>
     jobs (scheduler c') ''memory'' = None \<and>
     jobs (scheduler c') ''disk'' = None \<and>
     running (scheduler c')"
  using start_schedules_enabled_tasks_with_handler [of "register_task_handler ''memory'' 8
               (register_task_handler ''cpu'' 7 example_collector)"]
  by (auto simp: example_collector_def example_tasks_def register_task_handler_def
      BackgroundScheduler_def metric_type_value_def log_to_def)

text \<open>
  C3 as stated fails: on a collector without any job, pausing the task \<open>gpu\<close>
  raises the scheduler's lookup error.
\<close>

theorem pause_unscheduled_task_counterexample:
  "jobs (scheduler example_collector) ''gpu'' = None \<and>
   pause_task ''gpu'' example_collector = (Some (JobLookupError ''gpu''), example_collector)"
  by (simp add: example_collector_def BackgroundScheduler_def pause_task_def pause_job_def)

text \<open>
  C3 (as amended). \<open>pause_task\<close> and \<open>resume_task\<close> pass the name to the
  scheduler without a check of their own: for a name that has no job the scheduler's
  \<open>JobLookupError\<close> reaches the caller, with the collector unchanged and nothing
  logged. Resuming a job that exists and is not paused raises nothing and changes
  nothing but the logger, which gets the record of the call.
\<close>

theorem pause_resume_forward_to_scheduler:
  "(jobs (scheduler c) nm = None \<longrightarrow>
      pause_task nm c = (Some (JobLookupError nm), c) \<and>
      resume_task nm c = (Some (JobLookupError nm), c)) \<and>
   (\<forall>j. jobs (scheduler c) nm = Some j \<and> \<not> job_paused j \<longrightarrow>
      resume_task nm c = (None, c\<lparr>logger := logger c @ [(INFO, Resumed_task nm)]\<rparr>))"
proof -
  have "(jobs (scheduler c))(nm \<mapsto> j\<lparr>job_paused := False\<rparr>) = jobs (scheduler c)"
    if "jobs (scheduler c) nm = Some j" "\<not> job_paused j" for j
  proof -
    from that(2) have "j\<lparr>job_paused := False\<rparr> = j"
      by simp
    with that(1) show ?thesis
      by (simp add: map_upd_triv)
  qed
  then show ?thesis
    by (auto simp: pause_task_def resume_task_def pause_job_def resume_job_def log_to_def)
qed


theorem pause_resume_forward_to_scheduler_witness:
  "pause_task ''gpu'' example_collector = (Some (JobLookupError ''gpu''), example_collector) \<and>
   resume_task ''gpu'' example_collector = (Some (JobLookupError ''gpu''), example_collector) \<and>
   resume_task ''cpu'' example_started =
     (None, example_started\<lparr>logger := logger example_started @ [(INFO, Resumed_task ''cpu'')]\<rparr>)"
  using pause_resume_forward_to_scheduler [of example_collector "''gpu''"]
    pause_resume_forward_to_scheduler [of example_started "''cpu''"]
  by (simp add: example_collector_def example_started_def BackgroundScheduler_def)

lemma stop_always_raises:
  "stop wait timeout c = (Some TypeError, log_to (INFO, Stopping_metric_collector) c)"
  by (simp add: stop_def scheduler_shutdown_def Let_def)


text \<open>
  C2. \<open>stop\<close> does not return: it logs that it is stopping and calls
  \<open>shutdown\<close> with the keyword \<open>timeout\<close>, which the scheduler's method does not
  have, so the call raises \<open>TypeError\<close> and the scheduler is left as it was. On the
  started collector of the examples, \<open>stop(wait=True, timeout=5.0)\<close> raises, the
  scheduler is still running with its jobs, and the second log record is never written.
\<close>

theorem stop_raises_type_error:
  "fst (stop True 5 example_started) = Some TypeError \<and>
   running (scheduler example_started) \<and>
   running (scheduler (snd (stop True 5 example_started))) \<and>
   jobs (scheduler (snd (stop True 5 example_started))) = jobs (scheduler example_started) \<and>
   logger (snd (stop True 5 example_started)) =
     logger example_started @ [(INFO, Stopping_metric_collector)]"
  by (simp add: stop_always_raises example_started_def example_collector_def)

section \<open>Health checks and reconnection\<close>

lemma act_simps [simp]:
  "dm_display (act a dm) = dm_display dm"
  "reconnect_attempts (act a dm) = reconnect_attempts dm"
  "actions (act a dm) = actions dm @ [a]"
  by (simp_all add: act_def)

lemma check_health_connected:
  assumes "\<not> is_LcdSimulated (dm_display dm)" "fst (is_connected dm)"
  shows "check_health cfg failure dm = (Inr False, (act Probed dm)\<lparr>reconnect_attempts := 0\<rparr>)"
  using assms by (simp add: check_health_def is_connected_def)

lemma check_health_exhausted:
  assumes "\<not> is_LcdSimulated (dm_display dm)" "\<not> fst (is_connected dm)"
    "reconnect_attempts dm + 1 > max_reconnect_attempts cfg"
  shows "check_health cfg failure dm =
           (Inl (RuntimeError ''Serial connection lost''),
            dm\<lparr>reconnect_attempts := reconnect_attempts dm + 1,
               actions := actions dm @ [Probed, Logged WARNING Serial_disconnected,
                                         Logged ERROR Max_reconnect_attempts_reached]\<rparr>)"
  using assms by (simp add: check_health_def is_connected_def try_reconnect_def Let_def act_def)

lemma check_health_reconnected:
  assumes "\<not> is_LcdSimulated (dm_display dm)" "\<not> fst (is_connected dm)"
    "reconnect_attempts dm + 1 \<le> max_reconnect_attempts cfg"
    "lcd_serial (lcd (dm_display dm)) = Some port" "failure = None"
  shows "check_health cfg failure dm =
           (Inr True,
            dm\<lparr>dm_display := (dm_display dm)\<lparr>lcd :=
                  (lcd (dm_display dm))\<lparr>lcd_serial := Some (port\<lparr>is_open := True\<rparr>)\<rparr>\<rparr>,
               reconnect_attempts := 0,
               actions := actions dm @ [Probed, Logged WARNING Serial_disconnected,
                                         Slept (reconnect_wait cfg), Open_called,
                                         Logged INFO Reconnected_successfully]\<rparr>)"
  using assms
  by (simp add: check_health_def is_connected_def try_reconnect_def Let_def act_def
      serial_open_def)

lemma check_health_retry:
  assumes "\<not> is_LcdSimulated (dm_display dm)" "\<not> fst (is_connected dm)"
    "reconnect_attempts dm + 1 \<le> max_reconnect_attempts cfg"
    "lcd_serial (lcd (dm_display dm)) = Some port" "failure = Some e"
  shows "check_health cfg failure dm =
           (Inr False,
            dm\<lparr>reconnect_attempts := reconnect_attempts dm + 1,
               actions := actions dm @ [Probed, Logged WARNING Serial_disconnected,
                                         Slept (reconnect_wait cfg), Open_called,
                                         Logged ERROR (Reconnect_failed e)]\<rparr>)"
  using assms
  by (simp add: check_health_def is_connected_def try_reconnect_def Let_def act_def
      serial_open_def)

lemma check_health_no_port:
  assumes "\<not> is_LcdSimulated (dm_display dm)"
    "reconnect_attempts dm + 1 \<le> max_reconnect_attempts cfg"
    "lcd_serial (lcd (dm_display dm)) = None"
  shows "check_health cfg failure dm =
           (Inr False,
            dm\<lparr>reconnect_attempts := reconnect_attempts dm + 1,
               actions := actions dm @ [Probed, Logged WARNING Serial_disconnected,
                                         Slept (reconnect_wait cfg),
                                         Logged ERROR (Reconnect_failed AttributeError)]\<rparr>)"
  using assms
  by (simp add: check_health_def is_connected_def try_reconnect_def Let_def act_def
      serial_open_def)


lemma stop_all_raises:
  "stop_all sm =
     (Some TypeError,
      sm\<lparr>sm_actions := sm_actions sm @ [Logged INFO Stopping_schedulers], stopping := True,
         collector := log_to (INFO, Stopping_metric_collector) (collector sm)\<rparr>)"
  by (simp add: stop_all_def stop_always_raises Let_def)

lemma shutdown_raises:
  "\<exists>sm'. shutdown None dm sm =
           (Some TypeError, act Turn_off_called (act (Logged INFO Shutting_down_display) dm), sm') \<and>
         stopping sm' \<and> scheduler (collector sm') = scheduler (collector sm)"
  by (simp add: shutdown_def stop_all_raises Let_def)

lemma monitoring_round_retry:
  assumes d: "\<not> is_LcdSimulated d" "lcd_serial (lcd d) = Some port" "\<not> is_open port"
    and le: "reconnect_attempts (display_mgr m) + 1 \<le> max_reconnect_attempts cfg"
  shows "\<exists>m'. monitoring_loop cfg turn_off ((d, Some e) # rounds) m =
                 monitoring_loop cfg turn_off rounds m' \<and>
               reconnect_attempts (display_mgr m') = reconnect_attempts (display_mgr m) + 1 \<and>
               open_calls (display_mgr m') = open_calls (display_mgr m) + 1 \<and>
               scheduler_mgr m' = scheduler_mgr m"
proof -
  let ?dm0 = "act (Slept (health_check_interval cfg)) ((display_mgr m)\<lparr>dm_display := d\<rparr>)"
  from d have nc: "\<not> fst (is_connected ?dm0)"
    by (simp add: is_connected_def)
  from d le have "\<exists>dm'. check_health cfg (Some e) ?dm0 = (Inr False, dm') \<and>
      reconnect_attempts dm' = reconnect_attempts (display_mgr m) + 1 \<and>
      open_calls dm' = open_calls (display_mgr m) + 1"
    using check_health_retry [of ?dm0 cfg port "Some e" e] nc
    by (simp add: open_calls_def)
  then obtain dm' where "check_health cfg (Some e) ?dm0 = (Inr False, dm')"
    "reconnect_attempts dm' = reconnect_attempts (display_mgr m) + 1"
    "open_calls dm' = open_calls (display_mgr m) + 1"
    by blast
  then show ?thesis
    by (intro exI [of _ "m\<lparr>display_mgr := dm'\<rparr>"]) simp
qed

lemma monitoring_rounds_retry:
  assumes d: "\<not> is_LcdSimulated d" "lcd_serial (lcd d) = Some port" "\<not> is_open port"
  shows "reconnect_attempts (display_mgr m) + int n \<le> max_reconnect_attempts cfg \<Longrightarrow>
         \<exists>m'. monitoring_loop cfg turn_off (replicate n (d, Some e) @ rounds) m =
                 monitoring_loop cfg turn_off rounds m' \<and>
               reconnect_attempts (display_mgr m') = reconnect_attempts (display_mgr m) + int n \<and>
               open_calls (display_mgr m') = open_calls (display_mgr m) + n \<and>
               scheduler_mgr m' = scheduler_mgr m"
proof (induction n arbitrary: m)
  case 0
  show ?case by (rule exI [of _ m]) simp
next
  case (Suc n)
  then have "reconnect_attempts (display_mgr m) + 1 \<le> max_reconnect_attempts cfg"
    by simp
  from monitoring_round_retry [OF d this, of turn_off e "replicate n (d, Some e) @ rounds"]
  obtain m1 where
    s1: "monitoring_loop cfg turn_off ((d, Some e) # replicate n (d, Some e) @ rounds) m =
         monitoring_loop cfg turn_off (replicate n (d, Some e) @ rounds) m1" and
    a1: "reconnect_attempts (display_mgr m1) = reconnect_attempts (display_mgr m) + 1" and
    o1: "open_calls (display_mgr m1) = open_calls (display_mgr m) + 1" and
    q1: "scheduler_mgr m1 = scheduler_mgr m"
    by blast
  from Suc.prems a1
  have "reconnect_attempts (display_mgr m1) + int n \<le> max_reconnect_attempts cfg"
    by simp
  from Suc.IH [OF this] obtain m2 where
    "monitoring_loop cfg turn_off (replicate n (d, Some e) @ rounds) m1 =
     monitoring_loop cfg turn_off rounds m2"
    "reconnect_attempts (display_mgr m2) = reconnect_attempts (display_mgr m1) + int n"
    "open_calls (display_mgr m2) = open_calls (display_mgr m1) + n"
    "scheduler_mgr m2 = scheduler_mgr m1"
    by blast
  with s1 a1 o1 q1 show ?case
    by auto
qed

lemma monitoring_round_exhausted:
  assumes d: "\<not> is_LcdSimulated d" "lcd_serial (lcd d) = Some port" "\<not> is_open port"
    and gt: "reconnect_attempts (display_mgr m) + 1 > max_reconnect_attempts cfg"
  shows "\<exists>m'. monitoring_loop cfg turn_off ((d, failure) # rounds) m =
                 (Fatal (RuntimeError ''Serial connection lost''), m') \<and>
               reconnect_attempts (display_mgr m') = reconnect_attempts (display_mgr m) + 1 \<and>
               open_calls (display_mgr m') = open_calls (display_mgr m) \<and>
               scheduler_mgr m' = scheduler_mgr m"
proof -
  let ?dm0 = "act (Slept (health_check_interval cfg)) ((display_mgr m)\<lparr>dm_display := d\<rparr>)"
  from d have nc: "\<not> fst (is_connected ?dm0)"
    by (simp add: is_connected_def)
  from d have "\<not> is_LcdSimulated (dm_display ?dm0)"
    by simp
  from check_health_exhausted [OF this nc, of cfg failure] gt
  show ?thesis
    by (simp add: open_calls_def)
qed

lemma monitoring_round_reconnected:
  assumes d: "\<not> is_LcdSimulated d" "lcd_serial (lcd d) = Some port" "\<not> is_open port"
    and le: "reconnect_attempts (display_mgr m) + 1 \<le> max_reconnect_attempts cfg"
  shows "\<exists>m'. monitoring_loop cfg None ((d, None) # rounds) m = (Propagated TypeError, m') \<and>
               reconnect_attempts (display_mgr m') = 0 \<and>
               fst (is_connected (display_mgr m')) \<and>
               open_calls (display_mgr m') = open_calls (display_mgr m) + 1 \<and>
               Logged INFO Restarting_after_reconnection \<in> set (actions (display_mgr m')) \<and>
               stopping (scheduler_mgr m')"
proof -
  let ?dm0 = "act (Slept (health_check_interval cfg)) ((display_mgr m)\<lparr>dm_display := d\<rparr>)"
  from d have nc: "\<not> fst (is_connected ?dm0)"
    by (simp add: is_connected_def)
  from d have "lcd_serial (lcd (dm_display ?dm0)) = Some port"
    "\<not> is_LcdSimulated (dm_display ?dm0)"
    by simp_all
  from check_health_reconnected [OF this(2) nc _ this(1), of cfg None] le
  obtain dm' where c: "check_health cfg None ?dm0 = (Inr True, dm')"
    and dm': "reconnect_attempts dm' = 0" "fst (is_connected dm')"
      "open_calls dm' = open_calls (display_mgr m) + 1"
    by (auto simp: is_connected_def open_calls_def)
  from shutdown_raises [of "act (Logged INFO Restarting_after_reconnection) dm'" "scheduler_mgr m"]
  obtain sm' where
    "shutdown None (act (Logged INFO Restarting_after_reconnection) dm') (scheduler_mgr m) =
       (Some TypeError,
        act Turn_off_called (act (Logged INFO Shutting_down_display)
          (act (Logged INFO Restarting_after_reconnection) dm')), sm')"
    "stopping sm'"
    by blast
  with c dm' show ?thesis
    by (simp add: is_connected_def open_calls_def)
qed


lemma reconnect_before_limit:
  assumes d: "\<not> is_LcdSimulated d" "lcd_serial (lcd d) = Some port" "\<not> is_open port"
    and m: "max_reconnect_attempts cfg = int M" and k: "K < M"
    and a0: "reconnect_attempts (display_mgr m) = 0"
  shows "\<exists>m'. monitoring_loop cfg None (replicate K (d, Some e) @ [(d, None)]) m =
                 (Propagated TypeError, m') \<and>
               reconnect_attempts (display_mgr m') = 0 \<and>
               fst (is_connected (display_mgr m')) \<and>
               open_calls (display_mgr m') = open_calls (display_mgr m) + K + 1 \<and>
               Logged INFO Restarting_after_reconnection \<in> set (actions (display_mgr m'))"
proof -
  from m k a0 have "reconnect_attempts (display_mgr m) + int K \<le> max_reconnect_attempts cfg"
    by simp
  from monitoring_rounds_retry [OF d this, of None e "[(d, None)]"] a0
  obtain m1 where
    s1: "monitoring_loop cfg None (replicate K (d, Some e) @ [(d, None)]) m =
         monitoring_loop cfg None [(d, None)] m1" and
    a1: "reconnect_attempts (display_mgr m1) = int K" and
    o1: "open_calls (display_mgr m1) = open_calls (display_mgr m) + K"
    by auto
  from a1 m k have "reconnect_attempts (display_mgr m1) + 1 \<le> max_reconnect_attempts cfg"
    by simp
  from monitoring_round_reconnected [OF d this, of "[]"] s1 o1 show ?thesis
    by auto
qed

lemma reconnect_exhausted:
  assumes d: "\<not> is_LcdSimulated d" "lcd_serial (lcd d) = Some port" "\<not> is_open port"
    and m: "max_reconnect_attempts cfg = int M" and k: "M \<le> K"
    and a0: "reconnect_attempts (display_mgr m) = 0"
  shows "\<exists>m'. monitoring_loop cfg turn_off (replicate K (d, Some e) @ [(d, None)]) m =
                 (Fatal (RuntimeError ''Serial connection lost''), m') \<and>
               reconnect_attempts (display_mgr m') = int M + 1 \<and>
               open_calls (display_mgr m') = open_calls (display_mgr m) + M \<and>
               scheduler_mgr m' = scheduler_mgr m"
proof -
  obtain failure rest where
    split: "replicate K (d, Some e) @ [(d, None)] = replicate M (d, Some e) @ (d, failure) # rest"
  proof (cases "K = M")
    case True
    then have "replicate K (d, Some e) @ [(d, None)] = replicate M (d, Some e) @ (d, None) # []"
      by simp
    then show ?thesis by (rule that)
  next
    case False
    with k obtain j where "K = M + Suc j"
      by (metis less_imp_add_positive less_imp_Suc_add le_neq_implies_less)
    then have "replicate K (d, Some e) @ [(d, None)] =
        replicate M (d, Some e) @ (d, Some e) # (replicate j (d, Some e) @ [(d, None)])"
      by (simp add: replicate_add replicate_append_same)
    then show ?thesis by (rule that)
  qed
  from m a0 have "reconnect_attempts (display_mgr m) + int M \<le> max_reconnect_attempts cfg"
    by simp
  from monitoring_rounds_retry [OF d this, of turn_off e "(d, failure) # rest"] a0
  obtain m1 where
    s1: "monitoring_loop cfg turn_off (replicate M (d, Some e) @ (d, failure) # rest) m =
         monitoring_loop cfg turn_off ((d, failure) # rest) m1" and
    a1: "reconnect_attempts (display_mgr m1) = int M" and
    o1: "open_calls (display_mgr m1) = open_calls (display_mgr m) + M" and
    sm1: "scheduler_mgr m1 = scheduler_mgr m"
    by auto
  from a1 m have "reconnect_attempts (display_mgr m1) + 1 > max_reconnect_attempts cfg"
    by simp
  from monitoring_round_exhausted [OF d this, of turn_off failure rest] s1 a1 o1 split sm1
  show ?thesis
    by auto
qed


text \<open>
  C1. One health check on a display that is not simulated: with the port open the check
  returns False and the counter is 0; with the port not open and the incremented counter
  within \<open>max_reconnect_attempts\<close>, a reconnect that succeeds returns True (restart)
  with the counter reset to 0, and one that fails returns False (continue) with the
  counter incremented; once the incremented counter exceeds the maximum the check raises
  \<open>RuntimeError\<close>, and does so after the two log records only, without sleeping and
  without calling \<open>open()\<close>. Over the monitoring loop, from a counter of 0 and with
  the maximum \<open>M\<close>: when the reconnect fails \<open>K\<close> times and would succeed then, and
  \<open>K < M\<close>, the check of round \<open>K + 1\<close> signals the restart with the counter 0 and
  the port open, and the loop is left by the \<open>TypeError\<close> that the shutdown of the
  restart raises; when \<open>K \<ge> M\<close> the loop ends in the fatal error, after exactly
  \<open>M\<close> calls of \<open>open()\<close>. The waits of the configuration are not negative.
\<close>

theorem link_health_state_machine:
  "(\<not> is_LcdSimulated (dm_display dm) \<longrightarrow>
      (fst (is_connected dm) \<longrightarrow>
         (\<exists>dm'. check_health cfg failure dm = (Inr False, dm') \<and>
                reconnect_attempts dm' = 0)) \<and>
      (\<not> fst (is_connected dm) \<and>
       reconnect_attempts dm + 1 \<le> max_reconnect_attempts cfg \<and>
       0 \<le> reconnect_wait cfg \<longrightarrow>
         (fst (serial_open failure dm) = None \<longrightarrow>
            (\<exists>dm'. check_health cfg failure dm = (Inr True, dm') \<and>
                   reconnect_attempts dm' = 0)) \<and>
         (fst (serial_open failure dm) \<noteq> None \<longrightarrow>
            (\<exists>dm'. check_health cfg failure dm = (Inr False, dm') \<and>
                   reconnect_attempts dm' = reconnect_attempts dm + 1))) \<and>
      (\<not> fst (is_connected dm) \<and>
       max_reconnect_attempts cfg < reconnect_attempts dm + 1 \<longrightarrow>
         (\<exists>dm'. check_health cfg failure dm =
                  (Inl (RuntimeError ''Serial connection lost''), dm') \<and>
                reconnect_attempts dm' = reconnect_attempts dm + 1 \<and>
                actions dm' = actions dm @ [Probed, Logged WARNING Serial_disconnected,
                                            Logged ERROR Max_reconnect_attempts_reached]))) \<and>
   (\<not> is_LcdSimulated d \<and> lcd_serial (lcd d) = Some port \<and> \<not> is_open port \<and>
    max_reconnect_attempts cfg = int M \<and> reconnect_attempts (display_mgr m) = 0 \<and>
    0 \<le> reconnect_wait cfg \<and> 0 \<le> health_check_interval cfg \<longrightarrow>
      (K < M \<longrightarrow>
         (\<exists>m'. monitoring_loop cfg None (replicate K (d, Some e) @ [(d, None)]) m =
                  (Propagated TypeError, m') \<and>
                Logged INFO Restarting_after_reconnection \<in> set (actions (display_mgr m')) \<and>
                reconnect_attempts (display_mgr m') = 0 \<and>
                fst (is_connected (display_mgr m')))) \<and>
      (M \<le> K \<longrightarrow>
         (\<exists>m'. monitoring_loop cfg turn_off (replicate K (d, Some e) @ [(d, None)]) m =
                  (Fatal (RuntimeError ''Serial connection lost''), m') \<and>
                reconnect_attempts (display_mgr m') = int M + 1 \<and>
                open_calls (display_mgr m') = open_calls (display_mgr m) + M)))"
proof (intro conjI impI)
  assume "\<not> is_LcdSimulated (dm_display dm)" "fst (is_connected dm)"
  from check_health_connected [OF this, of cfg failure]
  show "\<exists>dm'. check_health cfg failure dm = (Inr False, dm') \<and> reconnect_attempts dm' = 0"
    by simp
next
  assume sim: "\<not> is_LcdSimulated (dm_display dm)"
    and a: "\<not> fst (is_connected dm) \<and> reconnect_attempts dm + 1 \<le> max_reconnect_attempts cfg \<and>
            0 \<le> reconnect_wait cfg"
    and ok: "fst (serial_open failure dm) = None"
  from ok obtain p where p: "lcd_serial (lcd (dm_display dm)) = Some p" "failure = None"
    by (auto simp: serial_open_def split: option.splits)
  from check_health_reconnected [OF sim _ _ p, of cfg] a
  show "\<exists>dm'. check_health cfg failure dm = (Inr True, dm') \<and> reconnect_attempts dm' = 0"
    by simp
next
  assume sim: "\<not> is_LcdSimulated (dm_display dm)"
    and a: "\<not> fst (is_connected dm) \<and> reconnect_attempts dm + 1 \<le> max_reconnect_attempts cfg \<and>
            0 \<le> reconnect_wait cfg"
    and bad: "fst (serial_open failure dm) \<noteq> None"
  show "\<exists>dm'. check_health cfg failure dm = (Inr False, dm') \<and>
              reconnect_attempts dm' = reconnect_attempts dm + 1"
  proof (cases "lcd_serial (lcd (dm_display dm))")
    case None
    from check_health_no_port [OF sim _ None, of cfg failure] a show ?thesis
      by simp
  next
    case (Some p)
    with bad obtain e' where "failure = Some e'"
      by (auto simp: serial_open_def split: option.splits)
    from check_health_retry [OF sim _ _ Some this, of cfg] a show ?thesis
      by simp
  qed
next
  assume sim: "\<not> is_LcdSimulated (dm_display dm)"
    and a: "\<not> fst (is_connected dm) \<and> max_reconnect_attempts cfg < reconnect_attempts dm + 1"
  from check_health_exhausted [OF sim, of cfg failure] a
  show "\<exists>dm'. check_health cfg failure dm =
                (Inl (RuntimeError ''Serial connection lost''), dm') \<and>
              reconnect_attempts dm' = reconnect_attempts dm + 1 \<and>
              actions dm' = actions dm @ [Probed, Logged WARNING Serial_disconnected,
                                          Logged ERROR Max_reconnect_attempts_reached]"
    by simp
next
  assume d: "\<not> is_LcdSimulated d \<and> lcd_serial (lcd d) = Some port \<and> \<not> is_open port \<and>
             max_reconnect_attempts cfg = int M \<and> reconnect_attempts (display_mgr m) = 0 \<and>
             0 \<le> reconnect_wait cfg \<and> 0 \<le> health_check_interval cfg"
    and k: "K < M"
  from reconnect_before_limit [of d port cfg M K m e] d k
  show "\<exists>m'. monitoring_loop cfg None (replicate K (d, Some e) @ [(d, None)]) m =
                (Propagated TypeError, m') \<and>
              Logged INFO Restarting_after_reconnection \<in> set (actions (display_mgr m')) \<and>
              reconnect_attempts (display_mgr m') = 0 \<and>
              fst (is_connected (display_mgr m'))"
    by blast
next
  assume d: "\<not> is_LcdSimulated d \<and> lcd_serial (lcd d) = Some port \<and> \<not> is_open port \<and>
             max_reconnect_attempts cfg = int M \<and> reconnect_attempts (display_mgr m) = 0 \<and>
             0 \<le> reconnect_wait cfg \<and> 0 \<le> health_check_interval cfg"
    and k: "M \<le> K"
  from reconnect_exhausted [of d port cfg M K m turn_off e] d k
  show "\<exists>m'. monitoring_loop cfg turn_off (replicate K (d, Some e) @ [(d, None)]) m =
                (Fatal (RuntimeError ''Serial connection lost''), m') \<and>
              reconnect_attempts (display_mgr m') = int M + 1 \<and>
              open_calls (display_mgr m') = open_calls (display_mgr m) + M"
    by blast
qed

theorem link_health_state_machine_witness:
  "(\<exists>dm'. check_health Config_default None (DisplayManager_init example_display_open) =
            (Inr False, dm') \<and> reconnect_attempts dm' = 0) \<and>
   (\<exists>dm'. check_health Config_default None (DisplayManager_init example_display_closed) =
            (Inr True, dm') \<and> reconnect_attempts dm' = 0) \<and>
   (\<exists>dm'. check_health Config_default (Some SerialException)
            (DisplayManager_init example_display_closed) =
            (Inr False, dm') \<and> reconnect_attempts dm' = 1) \<and>
   (\<exists>dm'. check_health Config_default (Some SerialException)
            ((DisplayManager_init example_display_closed)\<lparr>reconnect_attempts := 20\<rparr>) =
            (Inl (RuntimeError ''Serial connection lost''), dm') \<and>
          reconnect_attempts dm' = 21 \<and>
          actions dm' = [Probed, Logged WARNING Serial_disconnected,
                         Logged ERROR Max_reconnect_attempts_reached]) \<and>
   (\<exists>m'. monitoring_loop example_config_two_attempts None
            [(example_display_closed, Some SerialException), (example_display_closed, None)]
            (example_monitor example_display_open) = (Propagated TypeError, m') \<and>
          Logged INFO Restarting_after_reconnection \<in> set (actions (display_mgr m')) \<and>
          reconnect_attempts (display_mgr m') = 0) \<and>
   (\<exists>m'. monitoring_loop example_config_two_attempts None
            [(example_display_closed, Some SerialException),
             (example_display_closed, Some SerialException),
             (example_display_closed, None)]
            (example_monitor example_display_open) =
            (Fatal (RuntimeError ''Serial connection lost''), m') \<and>
          reconnect_attempts (display_mgr m') = 3 \<and> open_calls (display_mgr m') = 2)"
  using
    link_health_state_machine [where dm = "DisplayManager_init example_display_open"
      and cfg = Config_default and failure = None and d = example_display_simulated]
    link_health_state_machine [where dm = "DisplayManager_init example_display_closed"
      and cfg = Config_default and failure = None and d = example_display_simulated]
    link_health_state_machine [where dm = "DisplayManager_init example_display_closed"
      and cfg = Config_default and failure = "Some SerialException"
      and d = example_display_simulated]
    link_health_state_machine [where
      dm = "(DisplayManager_init example_display_closed)\<lparr>reconnect_attempts := 20\<rparr>"
      and cfg = Config_default and failure = "Some SerialException"
      and d = example_display_simulated]
    link_health_state_machine [where dm = "DisplayManager_init example_display_simulated"
      and cfg = example_config_two_attempts and d = example_display_closed
      and port = "\<lparr>is_open = False\<rparr>" and M = 2 and K = 1 and e = SerialException
      and m = "example_monitor example_display_open" and turn_off = None]
    link_health_state_machine [where dm = "DisplayManager_init example_display_simulated"
      and cfg = example_config_two_attempts and d = example_display_closed
      and port = "\<lparr>is_open = False\<rparr>" and M = 2 and K = 2 and e = SerialException
      and m = "example_monitor example_display_open" and turn_off = None]
  by (auto simp: DisplayManager_init_def example_display_open_def example_display_closed_def
      example_display_simulated_def Config_default_def example_config_two_attempts_def
      example_monitor_def open_calls_def
      is_connected_def serial_open_def act_def numeral_2_eq_2)

lemma simulated_rounds:
  "\<forall>r \<in> set rounds. is_LcdSimulated (fst r) \<Longrightarrow>
   \<exists>dm'. monitoring_loop cfg turn_off rounds m = (Stopped, m\<lparr>display_mgr := dm'\<rparr>) \<and>
         reconnect_attempts dm' = reconnect_attempts (display_mgr m) \<and>
         actions dm' =
           actions (display_mgr m) @ replicate (length rounds) (Slept (health_check_interval cfg))"
proof (induction rounds arbitrary: m)
  case Nil
  show ?case by (rule exI [of _ "display_mgr m"]) simp
next
  case (Cons r rounds)
  obtain d failure where r: "r = (d, failure)"
    by (cases r)
  let ?dm0 = "act (Slept (health_check_interval cfg)) ((display_mgr m)\<lparr>dm_display := d\<rparr>)"
  from Cons.prems r have "is_LcdSimulated d" "\<forall>r \<in> set rounds. is_LcdSimulated (fst r)"
    by auto
  from Cons.IH [OF this(2), of "m\<lparr>display_mgr := ?dm0\<rparr>"] this(1) r show ?case
    by (auto simp: check_health_def replicate_append_same)
qed

text \<open>
  C10. On a simulated display \<open>check_health\<close> returns False and leaves the manager
  exactly as it was: the counter is not touched and nothing is done (no read of the
  port, no sleep, no \<open>open()\<close>, no log record). So a monitoring loop whose rounds all
  find a simulated display runs until it is stopped, with the counter unchanged, nothing
  done but its own sleeps, and the scheduler manager untouched.
\<close>

theorem simulated_display_health_check_is_skipped:
  "(is_LcdSimulated (dm_display dm) \<longrightarrow> check_health cfg failure dm = (Inr False, dm)) \<and>
   ((\<forall>r \<in> set rounds. is_LcdSimulated (fst r)) \<longrightarrow>
      (\<exists>dm'. monitoring_loop cfg turn_off rounds m = (Stopped, m\<lparr>display_mgr := dm'\<rparr>) \<and>
             reconnect_attempts dm' = reconnect_attempts (display_mgr m) \<and>
             actions dm' =
               actions (display_mgr m) @
                 replicate (length rounds) (Slept (health_check_interval cfg))))"
  using simulated_rounds [of rounds cfg turn_off m]
  by (simp add: check_health_def)

theorem simulated_display_health_check_is_skipped_witness:
  "check_health Config_default (Some SerialException)
     ((DisplayManager_init example_display_simulated)\<lparr>reconnect_attempts := 5\<rparr>) =
     (Inr False, (DisplayManager_init example_display_simulated)\<lparr>reconnect_attempts := 5\<rparr>) \<and>
   (\<exists>dm'. monitoring_loop Config_default None
            [(example_display_simulated, None), (example_display_simulated, Some SerialException)]
            (example_monitor example_display_simulated) =
            (Stopped, (example_monitor example_display_simulated)\<lparr>display_mgr := dm'\<rparr>) \<and>
          reconnect_attempts dm' = 0 \<and> actions dm' = [Slept 2, Slept 2])"
  using simulated_display_health_check_is_skipped
    [where dm = "(DisplayManager_init example_display_simulated)\<lparr>reconnect_attempts := 5\<rparr>"
       and cfg = Config_default and failure = "Some SerialException"
       and rounds = "[(example_display_simulated, None),
                      (example_display_simulated, Some SerialException)]"
       and turn_off = None and m = "example_monitor example_display_simulated"]
  by (auto simp: DisplayManager_init_def example_display_simulated_def Config_default_def
      example_monitor_def check_health_def act_def)

section \<open>The queue handler\<close>

lemma queue_handler_loop_drains:
  "length queue \<le> n \<Longrightarrow>
   queue_handler_loop n (queue, dev) = ([], fold call_operation queue dev)"
proof (induction n arbitrary: queue dev)
  case 0
  then show ?case by simp
next
  case (Suc n)
  show ?case
  proof (cases queue)
    case Nil
    with Suc.IH [of "[]" dev] show ?thesis
      by (simp add: queue_handler_try_def)
  next
    case (Cons operation rest)
    obtain f args where operation: "operation = (f, args)"
      by (cases operation)
    from Suc.prems Cons have len: "length rest \<le> n"
      by simp
    show ?thesis
    proof (cases f)
      case None
      with Suc.IH [OF len, of dev] Cons operation show ?thesis
        by (simp add: queue_handler_try_def call_operation_def)
    next
      case (Some g)
      obtain raised dev' where g: "g args dev = (raised, dev')"
        by (cases "g args dev")
      with Suc.IH [OF len, of dev'] Cons operation Some show ?thesis
        by (cases raised) (simp_all add: queue_handler_try_def call_operation_def)
    qed
  qed
qed

text \<open>
  C8. The queue handler calls every queued operation, in order, whether or not an
  earlier one raised: given at least as many rounds as there are entries, it empties the
  queue and the device has gone through all the operations. In particular, for a queue in
  which an operation that raises is followed, anywhere later, by another operation, the
  later operation is called on the device as the operations before it left it.
\<close>

theorem queue_handler_survives_raising_operation:
  "(length queue \<le> n \<longrightarrow>
      queue_handler_loop n (queue, dev) = ([], fold call_operation queue dev)) \<and>
   (raises bad (fold call_operation before dev) \<and>
    length (before @ bad # between @ good # after) \<le> n \<longrightarrow>
      queue_handler_loop n (before @ bad # between @ good # after, dev) =
        ([], fold call_operation after
               (call_operation good
                  (fold call_operation between
                     (call_operation bad (fold call_operation before dev))))))"
  using queue_handler_loop_drains [of queue n dev]
    queue_handler_loop_drains [of "before @ bad # between @ good # after" n dev]
  by simp

theorem queue_handler_survives_raising_operation_witness:
  "raises example_raising_operation [] \<and>
   \<not> raises example_writing_operation [] \<and>
   queue_handler_loop 2 ([example_raising_operation, example_writing_operation], []) =
     ([], [''second''])"
  using queue_handler_survives_raising_operation
    [of "[]" 2 "[]" example_raising_operation "[]" "[]" example_writing_operation "[]"]
  by (auto simp: example_raising_operation_def example_writing_operation_def raises_def
      call_operation_def)


end
